theory Spec2Isabelle
  imports Complex_Main
begin

section \<open>Plane estimators of SeqRANSAC/PlaneEstimation.cpp\<close>

text \<open>
  The three functions of \<^verbatim>\<open>PlaneEstimation.cpp\<close> are embedded as HOL functions:
  \<^verbatim>\<open>EstimatePlaneOptimal\<close>, \<^verbatim>\<open>PlanePointRANSACDifferences\<close> and
  \<^verbatim>\<open>EstimatePlaneRANSAC\<close>.

  Conventions of the embedding.
  \<^item> The classifier \<^verbatim>\<open>PlanePointRANSACDifferences\<close> is embedded for an arbitrary
    arithmetic of floats, a parameter: what is proved of it holds whatever the
    operations round to.
  \<^item> The fitter and the estimator are embedded in exact arithmetic: \<^verbatim>\<open>float\<close> and
    \<^verbatim>\<open>double\<close> are the type \<open>real\<close>, without rounding, infinity or NaN. The index
    \<^verbatim>\<open>(int)(rand1*num)\<close> is exact too; the examples take \<^verbatim>\<open>RAND_MAX = 32767\<close> and draws
    for which single precision gives the same indices. On an empty cloud the source
    divides \<open>0.0\<close> by \<open>0\<close>; no statement below is about the value of a fit of no point.
  \<^item> \<^verbatim>\<open>int num = pts.size()\<close>, the loop counters and \<^verbatim>\<open>inlierCounter\<close> are
    unbounded (\<open>nat\<close> or \<open>int\<close>): a cloud is taken to have fewer than \<open>2^31\<close> points.
  \<^item> \<^verbatim>\<open>cv::eigen\<close> (OpenCV) is a parameter \<open>eigen\<close> of the model; it returns the
    pair \<open>(evals, evecs)\<close>.
  \<^item> \<^verbatim>\<open>rand()\<close> reads and advances process-wide state; the state is the sequence
    of the values that the coming calls return, passed explicitly. \<^verbatim>\<open>RAND_MAX\<close> is
    a parameter.
  \<^item> The outcome of a call that may throw or loop forever has type
    \<open>(error + 'a) option\<close>: \<open>None\<close> when a resampling loop never ends,
    \<open>Some (Inl e)\<close> when \<^verbatim>\<open>vector::at\<close> throws, \<open>Some (Inr v)\<close> when \<open>v\<close> is returned.
\<close>

subsection \<open>Data\<close>

text \<open>
  OpenCV's \<^verbatim>\<open>Point3_<T>\<close>, for a type \<open>'a\<close> of coordinates; \<^verbatim>\<open>Point3f\<close> is the one of
  floats, which the exact model takes as reals.
\<close>

datatype 'a Point3 = Point3f (px: 'a) (py: 'a) (pz: 'a)

type_synonym Point3f = "real Point3"

text \<open>The four floats behind the \<^verbatim>\<open>float*\<close> of a plane: \<^verbatim>\<open>plane[0..3]\<close>.\<close>

datatype 'a Plane4 = PlaneParams (pA: 'a) (pB: 'a) (pC: 'a) (pD: 'a)

type_synonym PlaneParams = "real Plane4"

text \<open>A \<^verbatim>\<open>cv::Mat\<close> of floats, as the list of its rows.\<close>

type_synonym Mat = "real list list"

text \<open>
  Modelled from the spec: the header \<^verbatim>\<open>PlaneEstimation.h\<close>, which declares the struct
  \<^verbatim>\<open>RANSACDiffs\<close>, is missing. The record has the three fields that the source
  assigns, with the types of the locals assigned to them; they are the Classification of
  the specification (distances, flags, inlier count).
\<close>

record 'a Diffs =
  inliersNum :: int
  distances :: "'a list"
  isInliers :: "bool list"

type_synonym RANSACDiffs = "real Diffs"

subsection \<open>Matrix helpers\<close>

definition dot :: "real list \<Rightarrow> real list \<Rightarrow> real" where
  "dot u v = sum_list (map2 (*) u v)"

text \<open>\<^verbatim>\<open>X.t()\<close> for a matrix of three columns: the three columns, as rows.\<close>

definition mat_t3 :: "Mat \<Rightarrow> Mat" where
  "mat_t3 X = [map (\<lambda>r. r ! 0) X, map (\<lambda>r. r ! 1) X, map (\<lambda>r. r ! 2) X]"

text \<open>The product \<open>M * X\<close> for a matrix \<open>X\<close> of three columns.\<close>

definition mat_mul3 :: "Mat \<Rightarrow> Mat \<Rightarrow> Mat" where
  "mat_mul3 M X = map (\<lambda>r. map (\<lambda>c. dot r c) (mat_t3 X)) M"

definition mat_vec :: "Mat \<Rightarrow> real list \<Rightarrow> real list" where
  "mat_vec M v = map (\<lambda>r. dot r v) M"

subsection \<open>EstimatePlaneOptimal\<close>

text \<open>The first loop: the sum of the coordinates, accumulated in \<open>t\<close>.\<close>

function centre_sum_loop :: "Point3f list \<Rightarrow> nat \<Rightarrow> Point3f \<Rightarrow> Point3f" where
  "centre_sum_loop pts idx t =
     (if idx < length pts
      then centre_sum_loop pts (Suc idx)
             (Point3f (px t + px (pts ! idx)) (py t + py (pts ! idx)) (pz t + pz (pts ! idx)))
      else t)"
  by pat_completeness auto
termination
  by (relation "measure (\<lambda>(pts, idx, t). length pts - idx)") auto

declare centre_sum_loop.simps [simp del]

definition centre_of_gravity :: "Point3f list \<Rightarrow> Point3f" where
  "centre_of_gravity pts =
     (let num = length pts;
          t = centre_sum_loop pts 0 (Point3f 0 0 0)
      in Point3f (px t / real num) (py t / real num) (pz t / real num))"

text \<open>The second loop: row \<open>idx\<close> of \<open>X\<close> is the point \<open>idx\<close> minus the centre.\<close>

function fill_X_loop :: "Point3f list \<Rightarrow> Point3f \<Rightarrow> nat \<Rightarrow> Mat \<Rightarrow> Mat" where
  "fill_X_loop pts t idx X =
     (if idx < length pts
      then (let pt = pts ! idx
            in fill_X_loop pts t (Suc idx) (X[idx := [px pt - px t, py pt - py t, pz pt - pz t]]))
      else X)"
  by pat_completeness auto
termination
  by (relation "measure (\<lambda>(pts, t, idx, X). length pts - idx)") auto

declare fill_X_loop.simps [simp del]

definition EstimatePlaneOptimal ::
  "(Mat \<Rightarrow> real list \<times> Mat) \<Rightarrow> Point3f list \<Rightarrow> PlaneParams" where
  "EstimatePlaneOptimal eigen pts =
     (let num = length pts;
          t = centre_of_gravity pts;
          X = fill_X_loop pts t 0 (replicate num [0, 0, 0]);
          mtx = mat_mul3 (mat_t3 X) X;
          (evals, evecs) = eigen mtx;
          A = evecs ! 2 ! 0;
          B = evecs ! 2 ! 1;
          C = evecs ! 2 ! 2
      in PlaneParams A B C (- (A * px t + B * py t + C * pz t)))"

subsection \<open>PlanePointRANSACDifferences\<close>

text \<open>
  The arithmetic of the classifier is a parameter: a type \<open>'f\<close> of floats with the
  product, the sum, \<^verbatim>\<open>fabs\<close> and the comparison \<^verbatim>\<open><\<close> of the platform, whatever they
  round to and whatever they do with infinities and NaN.
\<close>

record 'f arith =
  fmul :: "'f \<Rightarrow> 'f \<Rightarrow> 'f"
  fadd :: "'f \<Rightarrow> 'f \<Rightarrow> 'f"
  fabs :: "'f \<Rightarrow> 'f"
  fless :: "'f \<Rightarrow> 'f \<Rightarrow> bool"

text \<open>
  The loop over the points; the state is the three locals \<^verbatim>\<open>inlierCounter\<close>,
  \<^verbatim>\<open>distances\<close> and \<^verbatim>\<open>isInliers\<close>, held in a record. The expression
  \<^verbatim>\<open>fabs(A*pt.x+B*pt.y+C*pt.z+D)\<close> is evaluated from the left, in the arithmetic \<open>ar\<close>.
\<close>

function diff_loop ::
  "'f arith \<Rightarrow> 'f Point3 list \<Rightarrow> 'f Plane4 \<Rightarrow> 'f \<Rightarrow> nat \<Rightarrow> 'f Diffs \<Rightarrow> 'f Diffs" where
  "diff_loop ar pts plane threshold idx ret =
     (if idx < length pts
      then (let pt = pts ! idx;
                diff = fabs ar
                         (fadd ar
                            (fadd ar
                               (fadd ar (fmul ar (pA plane) (px pt)) (fmul ar (pB plane) (py pt)))
                               (fmul ar (pC plane) (pz pt)))
                            (pD plane))
            in if fless ar diff threshold
               then diff_loop ar pts plane threshold (Suc idx)
                      \<lparr>inliersNum = inliersNum ret + 1,
                       distances = distances ret @ [diff],
                       isInliers = isInliers ret @ [True]\<rparr>
               else diff_loop ar pts plane threshold (Suc idx)
                      \<lparr>inliersNum = inliersNum ret,
                       distances = distances ret @ [diff],
                       isInliers = isInliers ret @ [False]\<rparr>)
      else ret)"
  by pat_completeness auto
termination
  by (relation "measure (\<lambda>(ar, pts, plane, threshold, idx, ret). length pts - idx)") auto

declare diff_loop.simps [simp del]

text \<open>\<^verbatim>\<open>PlanePointRANSACDifferences\<close>, in the arithmetic \<open>ar\<close>.\<close>

definition PlanePointRANSACDifferences_arith ::
  "'f arith \<Rightarrow> 'f Point3 list \<Rightarrow> 'f Plane4 \<Rightarrow> 'f \<Rightarrow> 'f Diffs" where
  "PlanePointRANSACDifferences_arith ar pts plane threshold =
     diff_loop ar pts plane threshold 0 \<lparr>inliersNum = 0, distances = [], isInliers = []\<rparr>"

text \<open>Exact arithmetic on the reals: no rounding, no infinity, no NaN.\<close>

definition exact_arith :: "real arith" where
  "exact_arith = \<lparr>fmul = (*), fadd = (+), fabs = abs, fless = (<)\<rparr>"

text \<open>
  The classifier in exact arithmetic. It is the one that the estimator below calls:
  the fitter and the estimator are embedded in exact arithmetic only.
\<close>

definition PlanePointRANSACDifferences ::
  "Point3f list \<Rightarrow> PlaneParams \<Rightarrow> real \<Rightarrow> RANSACDiffs" where
  "PlanePointRANSACDifferences pts plane threshold =
     PlanePointRANSACDifferences_arith exact_arith pts plane threshold"

subsection \<open>EstimatePlaneRANSAC\<close>

text \<open>The only exception of the source: \<^verbatim>\<open>std::out_of_range\<close>, thrown by \<^verbatim>\<open>vector::at\<close>.\<close>

datatype error = OutOfRange

definition vec_at :: "'a list \<Rightarrow> int \<Rightarrow> error + 'a" where
  "vec_at xs i = (if 0 \<le> i \<and> i < int (length xs) then Inr (xs ! nat i) else Inl OutOfRange)"

text \<open>
  The state of the process-wide generator: the values that the coming calls of
  \<^verbatim>\<open>rand()\<close> return. A call returns the first and leaves the rest.
\<close>

type_synonym rng = "nat \<Rightarrow> nat"

definition rand :: "rng \<Rightarrow> nat \<times> rng" where
  "rand g = (g 0, \<lambda>i. g (Suc i))"

text \<open>The cast \<^verbatim>\<open>(int)\<close> of a float: truncation towards zero.\<close>

definition to_int :: "real \<Rightarrow> int" where
  "to_int r = (if 0 \<le> r then \<lfloor>r\<rfloor> else \<lceil>r\<rceil>)"

text \<open>\<^verbatim>\<open>(int)(((float)(rand())/RAND_MAX)*num)\<close> for the value \<open>r\<close> that \<^verbatim>\<open>rand()\<close> returned.\<close>

definition rand_index :: "nat \<Rightarrow> nat \<Rightarrow> nat \<Rightarrow> int" where
  "rand_index RAND_MAX num r =
     (let randf = real r / real RAND_MAX in to_int (randf * real num))"

text \<open>\<^verbatim>\<open>while (index2==index1) { rand2=...; index2=(int)(rand2*num); }\<close>\<close>

partial_function (option) index2_loop ::
  "nat \<Rightarrow> nat \<Rightarrow> int \<Rightarrow> int \<Rightarrow> rng \<Rightarrow> (int \<times> rng) option" where
  "index2_loop RAND_MAX num index1 index2 g =
     (if index2 = index1
      then (case rand g of (r, g') \<Rightarrow>
              index2_loop RAND_MAX num index1 (rand_index RAND_MAX num r) g')
      else Some (index2, g))"

text \<open>\<^verbatim>\<open>while ((index3==index1)||(index3==index2)) { rand3=...; index3=(int)(rand3*num); }\<close>\<close>

partial_function (option) index3_loop ::
  "nat \<Rightarrow> nat \<Rightarrow> int \<Rightarrow> int \<Rightarrow> int \<Rightarrow> rng \<Rightarrow> (int \<times> rng) option" where
  "index3_loop RAND_MAX num index1 index2 index3 g =
     (if index3 = index1 \<or> index3 = index2
      then (case rand g of (r, g') \<Rightarrow>
              index3_loop RAND_MAX num index1 index2 (rand_index RAND_MAX num r) g')
      else Some (index3, g))"

text \<open>
  The head of the loop body: three calls of \<^verbatim>\<open>rand()\<close>, then the three indices, the
  second and the third drawn again while they collide.
\<close>

definition draw_indices :: "nat \<Rightarrow> nat \<Rightarrow> rng \<Rightarrow> ((int \<times> int \<times> int) \<times> rng) option" where
  "draw_indices RAND_MAX num g =
     (case rand g of (r1, g1) \<Rightarrow>
      case rand g1 of (r2, g2) \<Rightarrow>
      case rand g2 of (r3, g3) \<Rightarrow>
        (let index1 = rand_index RAND_MAX num r1
         in case index2_loop RAND_MAX num index1 (rand_index RAND_MAX num r2) g3 of
              None \<Rightarrow> None
            | Some (index2, g4) \<Rightarrow>
                (case index3_loop RAND_MAX num index1 index2 (rand_index RAND_MAX num r3) g4 of
                   None \<Rightarrow> None
                 | Some (index3, g5) \<Rightarrow> Some ((index1, index2, index3), g5))))"

text \<open>
  The rest of the loop body, from the three indices: the minimal sample, its plane, the
  consensus set, and the update of \<^verbatim>\<open>bestSampleInlierNum\<close> and \<^verbatim>\<open>bestPlane\<close>.
\<close>

definition score_sample ::
  "(Mat \<Rightarrow> real list \<times> Mat) \<Rightarrow> Point3f list \<Rightarrow> real \<Rightarrow> int \<times> int \<times> int \<Rightarrow>
   int \<times> PlaneParams \<Rightarrow> error + (int \<times> PlaneParams)" where
  "score_sample eigen pts threshold idxs best =
     (case idxs of (index1, index2, index3) \<Rightarrow>
     (case best of (bestSampleInlierNum, bestPlane) \<Rightarrow>
     (case vec_at pts index1 of Inl e \<Rightarrow> Inl e | Inr pt1 \<Rightarrow>
     (case vec_at pts index2 of Inl e \<Rightarrow> Inl e | Inr pt2 \<Rightarrow>
     (case vec_at pts index3 of Inl e \<Rightarrow> Inl e | Inr pt3 \<Rightarrow>
        (let minimalSample = [pt1, pt2, pt3];
             samplePlane = EstimatePlaneOptimal eigen minimalSample;
             sampleResult = PlanePointRANSACDifferences pts samplePlane threshold
         in if inliersNum sampleResult > bestSampleInlierNum
            then Inr (inliersNum sampleResult, samplePlane)
            else Inr (bestSampleInlierNum, bestPlane)))))))"

text \<open>One pass of the loop body on the state \<open>(bestSampleInlierNum, bestPlane)\<close> and the generator.\<close>

definition ransac_trial ::
  "(Mat \<Rightarrow> real list \<times> Mat) \<Rightarrow> nat \<Rightarrow> Point3f list \<Rightarrow> real \<Rightarrow>
   (int \<times> PlaneParams) \<times> rng \<Rightarrow> (error + ((int \<times> PlaneParams) \<times> rng)) option" where
  "ransac_trial eigen RAND_MAX pts threshold st =
     (case st of (best, g) \<Rightarrow>
     (case draw_indices RAND_MAX (length pts) g of
        None \<Rightarrow> None
      | Some (idxs, g') \<Rightarrow>
          (case score_sample eigen pts threshold idxs best of
             Inl e \<Rightarrow> Some (Inl e)
           | Inr best' \<Rightarrow> Some (Inr (best', g')))))"

text \<open>\<^verbatim>\<open>for(int iter=0; iter<iterateNum; iter++)\<close>\<close>

function ransac_loop ::
  "(Mat \<Rightarrow> real list \<times> Mat) \<Rightarrow> nat \<Rightarrow> Point3f list \<Rightarrow> real \<Rightarrow> int \<Rightarrow> int \<Rightarrow>
   (int \<times> PlaneParams) \<times> rng \<Rightarrow> (error + ((int \<times> PlaneParams) \<times> rng)) option" where
  "ransac_loop eigen RAND_MAX pts threshold iterateNum iter st =
     (if iter < iterateNum
      then (case ransac_trial eigen RAND_MAX pts threshold st of
              None \<Rightarrow> None
            | Some (Inl e) \<Rightarrow> Some (Inl e)
            | Some (Inr st') \<Rightarrow> ransac_loop eigen RAND_MAX pts threshold iterateNum (iter + 1) st')
      else Some (Inr st))"
  by pat_completeness auto
termination
  by (relation "measure (\<lambda>(eigen, RAND_MAX, pts, threshold, iterateNum, iter, st).
                            nat (iterateNum - iter))") auto

declare ransac_loop.simps [simp del]

text \<open>The last loop: the points whose flag is set, in the order of the cloud.\<close>

function collect_loop :: "Point3f list \<Rightarrow> bool list \<Rightarrow> nat \<Rightarrow> Point3f list \<Rightarrow> Point3f list" where
  "collect_loop pts flags idx inlierPts =
     (if idx < length pts
      then (if flags ! idx
            then collect_loop pts flags (Suc idx) (inlierPts @ [pts ! idx])
            else collect_loop pts flags (Suc idx) inlierPts)
      else inlierPts)"
  by pat_completeness auto
termination
  by (relation "measure (\<lambda>(pts, flags, idx, inlierPts). length pts - idx)") auto

declare collect_loop.simps [simp del]

text \<open>
  \<open>bestPlane0\<close> stands for the contents of the local array \<^verbatim>\<open>bestPlane\<close> before the
  loop: the source does not initialise it. The generator is returned with the plane.
\<close>

definition EstimatePlaneRANSAC ::
  "(Mat \<Rightarrow> real list \<times> Mat) \<Rightarrow> nat \<Rightarrow> PlaneParams \<Rightarrow> Point3f list \<Rightarrow> real \<Rightarrow> int \<Rightarrow> rng \<Rightarrow>
   (error + (PlaneParams \<times> rng)) option" where
  "EstimatePlaneRANSAC eigen RAND_MAX bestPlane0 pts threshold iterateNum g =
     (case ransac_loop eigen RAND_MAX pts threshold iterateNum 0 ((0, bestPlane0), g) of
        None \<Rightarrow> None
      | Some (Inl e) \<Rightarrow> Some (Inl e)
      | Some (Inr ((bestSampleInlierNum, bestPlane), g')) \<Rightarrow>
          (let bestResult = PlanePointRANSACDifferences pts bestPlane threshold;
               inlierPts = collect_loop pts (isInliers bestResult) 0 [];
               finalPlane = EstimatePlaneOptimal eigen inlierPts
           in Some (Inr (finalPlane, g'))))"

subsection \<open>Notions of the specification\<close>

text \<open>
  The distance of the specification, \<open>|A x + B y + C z + D|\<close>, with the operations of an
  arithmetic \<open>ar\<close>, taken from the left.
\<close>

definition arith_distance :: "'f arith \<Rightarrow> 'f Plane4 \<Rightarrow> 'f Point3 \<Rightarrow> 'f" where
  "arith_distance ar plane p =
     fabs ar
       (fadd ar
          (fadd ar
             (fadd ar (fmul ar (pA plane) (px p)) (fmul ar (pB plane) (py p)))
             (fmul ar (pC plane) (pz p)))
          (pD plane))"

text \<open>The distance of the specification in exact arithmetic.\<close>

definition plane_distance :: "PlaneParams \<Rightarrow> Point3f \<Rightarrow> real" where
  "plane_distance plane p = \<bar>pA plane * px p + pB plane * py p + pC plane * pz p + pD plane\<bar>"

text \<open>The centroid \<open>t = mean(points)\<close>.\<close>

definition mean :: "Point3f list \<Rightarrow> Point3f" where
  "mean pts = Point3f (sum_list (map px pts) / real (length pts))
                      (sum_list (map py pts) / real (length pts))
                      (sum_list (map pz pts) / real (length pts))"

text \<open>A row of the centred coordinate matrix: \<open>point - t\<close>.\<close>

definition centred :: "Point3f \<Rightarrow> Point3f \<Rightarrow> real list" where
  "centred t p = [px p - px t, py p - py t, pz p - pz t]"

text \<open>
  The scatter matrix \<open>S = X\<^sup>T X\<close> of the points centred on their centroid: the entry
  \<open>(j, k)\<close> is the sum over the points of the product of the centred coordinates \<open>j\<close> and \<open>k\<close>.
\<close>

definition scatter :: "Point3f list \<Rightarrow> Mat" where
  "scatter pts =
     (let t = mean pts
      in map (\<lambda>j. map (\<lambda>k. sum_list (map (\<lambda>p. centred t p ! j * centred t p ! k) pts)) [0, 1, 2])
             [0, 1, 2])"

text \<open>\<open>v\<close> is an eigenvector of \<open>S\<close> for the eigenvalue \<open>lam\<close>: not zero, and \<open>S v = lam v\<close>.\<close>

definition is_eigenpair :: "Mat \<Rightarrow> real \<Rightarrow> real list \<Rightarrow> bool" where
  "is_eigenpair S lam v \<longleftrightarrow>
     length v = 3 \<and> (\<exists>c \<in> set v. c \<noteq> 0) \<and> mat_vec S v = map (\<lambda>c. lam * c) v"

text \<open>
  What \<^verbatim>\<open>cv::eigen\<close> promises for a symmetric \<open>3 \<times> 3\<close> matrix \<open>S\<close>: the eigenvalues of
  \<open>S\<close> in descending order, and in row \<open>i\<close> of \<open>evecs\<close> a unit eigenvector for the
  eigenvalue \<open>i\<close>.
\<close>

definition eigen_contract :: "Mat \<Rightarrow> real list \<times> Mat \<Rightarrow> bool" where
  "eigen_contract S out \<longleftrightarrow>
     (case out of (evals, evecs) \<Rightarrow>
        length evals = 3 \<and> length evecs = 3 \<and>
        (\<forall>i<3. dot (evecs ! i) (evecs ! i) = 1 \<and> is_eigenpair S (evals ! i) (evecs ! i)) \<and>
        evals ! 1 \<le> evals ! 0 \<and> evals ! 2 \<le> evals ! 1 \<and>
        (\<forall>mu v. is_eigenpair S mu v \<longrightarrow> mu \<in> set evals))"

text \<open>The generator after \<open>d\<close> calls of \<^verbatim>\<open>rand()\<close>.\<close>

definition rng_drop :: "nat \<Rightarrow> rng \<Rightarrow> rng" where
  "rng_drop d g = (\<lambda>i. g (i + d))"

text \<open>\<open>n\<close> trials, one after the other, each on the state that the one before left.\<close>

fun run_trials ::
  "(Mat \<Rightarrow> real list \<times> Mat) \<Rightarrow> nat \<Rightarrow> Point3f list \<Rightarrow> real \<Rightarrow> nat \<Rightarrow>
   (int \<times> PlaneParams) \<times> rng \<Rightarrow> (error + ((int \<times> PlaneParams) \<times> rng)) option" where
  "run_trials eigen RAND_MAX pts threshold 0 st = Some (Inr st)"
| "run_trials eigen RAND_MAX pts threshold (Suc n) st =
     (case ransac_trial eigen RAND_MAX pts threshold st of
        None \<Rightarrow> None
      | Some (Inl e) \<Rightarrow> Some (Inl e)
      | Some (Inr st') \<Rightarrow> run_trials eigen RAND_MAX pts threshold n st')"

text \<open>
  The pair \<open>y\<close> of an index and a generator comes from \<open>d\<close> more draws of \<open>g\<close>: the index
  is \<open>index0\<close> when \<open>d = 0\<close>, and the index of the last draw otherwise.
\<close>

definition drawn_from :: "nat \<Rightarrow> nat \<Rightarrow> int \<Rightarrow> rng \<Rightarrow> int \<times> rng \<Rightarrow> bool" where
  "drawn_from RAND_MAX num index0 g y \<longleftrightarrow>
     (\<exists>d. snd y = rng_drop d g \<and>
          (if d = 0 then fst y = index0 else fst y = rand_index RAND_MAX num (g (d - 1))))"

subsection \<open>Inputs of the examples\<close>

text \<open>Three points on the \<open>z\<close> axis, at the distances 0, 1 and 2 of the plane \<open>z = 0\<close>.\<close>

definition line_z :: "Point3f list" where
  "line_z = [Point3f 0 0 0, Point3f 0 0 1, Point3f 0 0 2]"

definition plane_z0 :: PlaneParams where
  "plane_z0 = PlaneParams 0 0 1 0"

text \<open>
  An eigen-solver for the matrices of the examples: for a diagonal matrix whose diagonal
  is in descending order, the eigenvalues are the diagonal and the eigenvectors are the
  unit vectors, in this order.
\<close>

definition eigen_sorted_diagonal :: "Mat \<Rightarrow> real list \<times> Mat" where
  "eigen_sorted_diagonal M =
     ([M ! 0 ! 0, M ! 1 ! 1, M ! 2 ! 2], [[1, 0, 0], [0, 1, 0], [0, 0, 1]])"

text \<open>
  A triangle in the plane \<open>z = h\<close>. Its scatter matrix is diagonal, with the eigenvalues
  8, 6 and 0: the normal \<open>(0, 0, 1)\<close> is determined up to its sign.
\<close>

definition triangle_z :: "real \<Rightarrow> Point3f list" where
  "triangle_z h = [Point3f (-2) 0 h, Point3f 2 0 h, Point3f 0 3 h]"

text \<open>Six points: a triangle in the plane \<open>z = 0\<close> and one in the plane \<open>z = 5\<close>.\<close>

definition two_triangles :: "Point3f list" where
  "two_triangles = triangle_z 0 @ triangle_z 5"

text \<open>Two points: fewer than a minimal sample.\<close>

definition pair_x :: "Point3f list" where
  "pair_x = [Point3f (-2) 0 0, Point3f 2 0 0]"

text \<open>A generator that returns the values of a list, again and again.\<close>

definition rng_cycle :: "nat list \<Rightarrow> rng" where
  "rng_cycle xs = (\<lambda>i. xs ! (i mod length xs))"

text \<open>With \<^verbatim>\<open>RAND_MAX = 32767\<close> and six points, the draws give the indices 0, 1, ..., 5, 0, ...\<close>

definition draws6 :: rng where
  "draws6 = rng_cycle [0, 5462, 10923, 16384, 21845, 27306]"

text \<open>With \<^verbatim>\<open>RAND_MAX = 32767\<close> and two points, the draws give the indices 0, 1, 0, 1, ...\<close>

definition draws2 :: rng where
  "draws2 = (\<lambda>i. if even i then 0 else 16384)"

text \<open>
  With \<^verbatim>\<open>RAND_MAX = 32767\<close> and six points, the first three draws give the indices 0, 1
  and 2; the fourth draw is \<^verbatim>\<open>RAND_MAX\<close>.
\<close>

definition draws_abort :: rng where
  "draws_abort = rng_cycle [0, 5462, 10923, 32767, 0, 5462]"

text \<open>A generator whose first value is \<^verbatim>\<open>RAND_MAX = 32767\<close>.\<close>

definition draws_max :: rng where
  "draws_max = rng_cycle [32767, 0, 16384]"

text \<open>
  An arithmetic that rounds, for an example: single precision in its normal range (no
  overflow, no subnormal number), rounding to nearest, ties to even. \<open>pow2 e\<close> is the
  power \<open>e\<close> of 2; a real \<open>x\<close> with \<open>pow2 e \<le> |x| < pow2 (e + 1)\<close> is rounded to a multiple
  of \<open>pow2 (e - 23)\<close>.
\<close>

definition round_to_even :: "real \<Rightarrow> int" where
  "round_to_even m =
     (let f = \<lfloor>m\<rfloor>
      in if m - of_int f < 1 / 2 then f
         else if 1 / 2 < m - of_int f then f + 1
         else if even f then f else f + 1)"

definition pow2 :: "int \<Rightarrow> real" where
  "pow2 e = (if 0 \<le> e then 2 ^ nat e else 1 / 2 ^ nat (- e))"

definition single :: "real \<Rightarrow> real" where
  "single x =
     (if x = 0 then 0
      else (let e = \<lfloor>log 2 \<bar>x\<bar>\<rfloor>; ulp = pow2 (e - 23)
            in of_int (round_to_even (x / ulp)) * ulp))"

definition single_arith :: "real arith" where
  "single_arith =
     \<lparr>fmul = (\<lambda>a b. single (a * b)), fadd = (\<lambda>a b. single (a + b)), fabs = abs, fless = (<)\<rparr>"

text \<open>
  A point and a plane on which single precision rounds: 16777217 is not a float.
\<close>

definition rounding_point :: "Point3f list" where
  "rounding_point = [Point3f 16777216 1 (- 16777216)]"

definition plane_111 :: PlaneParams where
  "plane_111 = PlaneParams 1 1 1 0"

section \<open>Properties of the loops\<close>

subsection \<open>The classifier\<close>

lemma diff_loop_eq:
  "diff_loop ar pts plane threshold idx ret =
     \<lparr>inliersNum = inliersNum ret
        + int (length (filter (\<lambda>p. fless ar (arith_distance ar plane p) threshold) (drop idx pts))),
      distances = distances ret @ map (arith_distance ar plane) (drop idx pts),
      isInliers = isInliers ret
        @ map (\<lambda>p. fless ar (arith_distance ar plane p) threshold) (drop idx pts)\<rparr>"
proof (induction ar pts plane threshold idx ret rule: diff_loop.induct)
  case (1 ar pts plane threshold idx ret)
  show ?case
  proof (cases "idx < length pts")
    case False
    then show ?thesis by (subst diff_loop.simps) simp
  next
    case True
    then have d: "drop idx pts = pts ! idx # drop (Suc idx) pts"
      by (simp add: Cons_nth_drop_Suc)
    show ?thesis
    proof (cases "fless ar (arith_distance ar plane (pts ! idx)) threshold")
      case True
      with \<open>idx < length pts\<close> "1.IH"(1)[OF \<open>idx < length pts\<close> refl refl] show ?thesis
        by (subst diff_loop.simps) (simp add: d arith_distance_def Let_def)
    next
      case False
      with \<open>idx < length pts\<close> "1.IH"(2)[OF \<open>idx < length pts\<close> refl refl] show ?thesis
        by (subst diff_loop.simps) (simp add: d arith_distance_def Let_def)
    qed
  qed
qed

lemma PPRD_arith_eq:
  "PlanePointRANSACDifferences_arith ar pts plane threshold =
     \<lparr>inliersNum = int (length (filter (\<lambda>p. fless ar (arith_distance ar plane p) threshold) pts)),
      distances = map (arith_distance ar plane) pts,
      isInliers = map (\<lambda>p. fless ar (arith_distance ar plane p) threshold) pts\<rparr>"
  by (simp add: PlanePointRANSACDifferences_arith_def diff_loop_eq)

lemma arith_distance_exact: "arith_distance exact_arith plane p = plane_distance plane p"
  by (simp add: arith_distance_def exact_arith_def plane_distance_def)

lemma PPRD_eq:
  "PlanePointRANSACDifferences pts plane threshold =
     \<lparr>inliersNum = int (length (filter (\<lambda>p. plane_distance plane p < threshold) pts)),
      distances = map (plane_distance plane) pts,
      isInliers = map (\<lambda>p. plane_distance plane p < threshold) pts\<rparr>"
  by (simp add: PlanePointRANSACDifferences_def PPRD_arith_eq arith_distance_exact)
     (simp add: exact_arith_def)

lemma filter_id_map: "filter id (map f xs) = map f (filter f xs)"
  by (induction xs) auto

lemma filter_mono_length:
  "(\<And>x. x \<in> set xs \<Longrightarrow> P x \<Longrightarrow> Q x) \<Longrightarrow> length (filter P xs) \<le> length (filter Q xs)"
  by (induction xs) auto

text \<open>
  In any arithmetic: when whatever is below \<open>t1\<close> is below \<open>t2\<close>, the flags and the count
  at \<open>t1\<close> are below those at \<open>t2\<close>; when no absolute value is below \<open>t\<close>, no flag is set.
\<close>

lemma classifier_monotone_arith:
  assumes "\<And>d. fless ar d t1 \<Longrightarrow> fless ar d t2"
  shows "(\<forall>i<length pts. isInliers (PlanePointRANSACDifferences_arith ar pts plane t1) ! i \<longrightarrow>
                          isInliers (PlanePointRANSACDifferences_arith ar pts plane t2) ! i) \<and>
         inliersNum (PlanePointRANSACDifferences_arith ar pts plane t1)
           \<le> inliersNum (PlanePointRANSACDifferences_arith ar pts plane t2)"
proof -
  have "length (filter (\<lambda>p. fless ar (arith_distance ar plane p) t1) pts)
          \<le> length (filter (\<lambda>p. fless ar (arith_distance ar plane p) t2) pts)"
    using assms by (intro filter_mono_length) simp
  with assms show ?thesis by (simp add: PPRD_arith_eq)
qed

lemma classifier_no_inlier_arith:
  assumes "\<And>x. \<not> fless ar (fabs ar x) t"
  shows "isInliers (PlanePointRANSACDifferences_arith ar pts plane t) = replicate (length pts) False \<and>
         inliersNum (PlanePointRANSACDifferences_arith ar pts plane t) = 0"
  using assms by (simp add: PPRD_arith_eq arith_distance_def map_replicate_const)

subsection \<open>The fitter\<close>

lemma centre_sum_loop_eq:
  "centre_sum_loop pts idx t =
     Point3f (px t + sum_list (map px (drop idx pts)))
             (py t + sum_list (map py (drop idx pts)))
             (pz t + sum_list (map pz (drop idx pts)))"
proof (induction pts idx t rule: centre_sum_loop.induct)
  case (1 pts idx t)
  show ?case
  proof (cases "idx < length pts")
    case False
    then show ?thesis by (subst centre_sum_loop.simps) simp
  next
    case True
    then have d: "drop idx pts = pts ! idx # drop (Suc idx) pts"
      by (simp add: Cons_nth_drop_Suc)
    from True "1.IH"[OF True] show ?thesis
      by (subst centre_sum_loop.simps) (simp add: d)
  qed
qed

lemma centre_of_gravity_mean: "centre_of_gravity pts = mean pts"
  by (simp add: centre_of_gravity_def mean_def centre_sum_loop_eq Let_def)

lemma fill_X_loop_eq:
  "length X = length pts \<Longrightarrow>
   fill_X_loop pts t idx X = take idx X @ map (centred t) (drop idx pts)"
proof (induction pts t idx X rule: fill_X_loop.induct)
  case (1 pts t idx X)
  show ?case
  proof (cases "idx < length pts")
    case False
    with "1.prems" show ?thesis by (subst fill_X_loop.simps) simp
  next
    case True
    then have d: "drop idx pts = pts ! idx # drop (Suc idx) pts"
      by (simp add: Cons_nth_drop_Suc)
    have "fill_X_loop pts t (Suc idx) (X[idx := centred t (pts ! idx)]) =
            take (Suc idx) (X[idx := centred t (pts ! idx)]) @ map (centred t) (drop (Suc idx) pts)"
      using "1.IH"[OF True refl] "1.prems" by (simp add: centred_def)
    also have "take (Suc idx) (X[idx := centred t (pts ! idx)]) = take idx X @ [centred t (pts ! idx)]"
      using True "1.prems" by (simp add: take_Suc_conv_app_nth)
    finally show ?thesis
      using True by (subst fill_X_loop.simps) (simp add: d Let_def centred_def)
  qed
qed

lemma fill_X_all:
  "fill_X_loop pts t 0 (replicate (length pts) [0, 0, 0]) = map (centred t) pts"
  by (simp add: fill_X_loop_eq)

lemma dot_map: "dot (map f xs) (map g xs) = sum_list (map (\<lambda>p. f p * g p) xs)"
  by (induction xs) (simp_all add: dot_def)

lemma mtx_scatter:
  "mat_mul3 (mat_t3 (map (centred (mean pts)) pts)) (map (centred (mean pts)) pts) = scatter pts"
  by (simp add: mat_mul3_def mat_t3_def scatter_def Let_def dot_map o_def)

lemma EstimatePlaneOptimal_eq:
  "EstimatePlaneOptimal eigen pts =
     (let t = mean pts; evecs = snd (eigen (scatter pts));
          A = evecs ! 2 ! 0; B = evecs ! 2 ! 1; C = evecs ! 2 ! 2
      in PlaneParams A B C (- (A * px t + B * py t + C * pz t)))"
  by (simp add: EstimatePlaneOptimal_def centre_of_gravity_mean fill_X_all mtx_scatter Let_def
        split: prod.split)

lemma list3: "length v = 3 \<Longrightarrow> v = [v ! 0, v ! 1, v ! 2]"
  by (auto simp: numeral_3_eq_3 length_Suc_conv)

subsection \<open>Random indices and the resampling loops\<close>

text \<open>The index, in the exact arithmetic of the model.\<close>

lemma rand_index_div: "rand_index RAND_MAX num r = int ((r * num) div RAND_MAX)"
proof -
  have "real r / real RAND_MAX * real num = real (r * num) / real RAND_MAX" by simp
  then show ?thesis
    unfolding rand_index_def to_int_def Let_def
    by (simp only: floor_divide_of_nat_eq) (simp)
qed

text \<open>The draw \<^verbatim>\<open>RAND_MAX\<close> gives the index \<open>num\<close>, one past the last point.\<close>

lemma rand_index_RAND_MAX: "0 < RAND_MAX \<Longrightarrow> rand_index RAND_MAX num RAND_MAX = int num"
  by (simp add: rand_index_div)

lemma rand_drop: "rand g = (g 0, rng_drop 1 g)"
  by (simp add: rand_def rng_drop_def)

lemma rng_drop_drop: "rng_drop d (rng_drop e g) = rng_drop (d + e) g"
  by (simp add: rng_drop_def fun_eq_iff add.assoc)

lemma rng_drop_0: "rng_drop 0 g = g"
  by (simp add: rng_drop_def)

lemma rng_drop_apply: "rng_drop d g i = g (i + d)"
  by (simp add: rng_drop_def)

lemma index2_loop_stop:
  "index2 \<noteq> index1 \<Longrightarrow> index2_loop RAND_MAX num index1 index2 g = Some (index2, g)"
  by (subst index2_loop.simps) simp

lemma index3_loop_stop:
  "index3 \<noteq> index1 \<Longrightarrow> index3 \<noteq> index2 \<Longrightarrow>
   index3_loop RAND_MAX num index1 index2 index3 g = Some (index3, g)"
  by (subst index3_loop.simps) simp

text \<open>What a resampling loop returns, when it returns.\<close>

lemma drawn_from_0: "drawn_from RAND_MAX num index0 g (index0, g)"
  unfolding drawn_from_def by (rule exI[of _ 0]) (simp add: rng_drop_0)

lemma drawn_from_step:
  assumes "drawn_from RAND_MAX num (rand_index RAND_MAX num (g 0)) (rng_drop 1 g) y"
  shows "drawn_from RAND_MAX num index0 g y"
proof -
  from assms obtain d where d: "snd y = rng_drop d (rng_drop 1 g)"
    and v: "if d = 0 then fst y = rand_index RAND_MAX num (g 0)
            else fst y = rand_index RAND_MAX num (rng_drop 1 g (d - 1))"
    unfolding drawn_from_def by blast
  have "snd y = rng_drop (Suc d) g" using d by (simp add: rng_drop_drop)
  moreover have "fst y = rand_index RAND_MAX num (g (Suc d - 1))"
    using v by (cases d) (simp_all add: rng_drop_apply)
  ultimately show ?thesis
    unfolding drawn_from_def by (intro exI[of _ "Suc d"]) simp
qed

lemma index2_loop_post:
  assumes "index2_loop RAND_MAX num index1 index2 g = Some y"
  shows "fst y \<noteq> index1 \<and> drawn_from RAND_MAX num index2 g y"
proof (rule index2_loop.raw_induct
    [where P = "\<lambda>RAND_MAX num index1 index2 g y.
                  fst y \<noteq> index1 \<and> drawn_from RAND_MAX num index2 g y", OF _ assms],
    goal_cases)
  case (1 loop RAND_MAX num index1 index2 g y)
  show ?case
  proof (cases "index2 = index1")
    case False
    with 1(2) have "y = (index2, g)" by auto
    with False show ?thesis by (simp add: drawn_from_0)
  next
    case True
    with 1(2) have "loop RAND_MAX num index1 (rand_index RAND_MAX num (g 0)) (rng_drop 1 g) = Some y"
      by (simp add: rand_drop)
    from 1(1)[OF this] show ?thesis by (simp add: drawn_from_step)
  qed
qed

lemma index3_loop_post:
  assumes "index3_loop RAND_MAX num index1 index2 index3 g = Some y"
  shows "fst y \<noteq> index1 \<and> fst y \<noteq> index2 \<and> drawn_from RAND_MAX num index3 g y"
proof (rule index3_loop.raw_induct
    [where P = "\<lambda>RAND_MAX num index1 index2 index3 g y.
                  fst y \<noteq> index1 \<and> fst y \<noteq> index2 \<and> drawn_from RAND_MAX num index3 g y",
     OF _ assms], goal_cases)
  case (1 loop RAND_MAX num index1 index2 index3 g y)
  show ?case
  proof (cases "index3 = index1 \<or> index3 = index2")
    case False
    with 1(2) have "y = (index3, g)" by auto
    with False show ?thesis by (simp add: drawn_from_0)
  next
    case True
    with 1(2) have "loop RAND_MAX num index1 index2 (rand_index RAND_MAX num (g 0)) (rng_drop 1 g) = Some y"
      by (auto simp add: rand_drop)
    from 1(1)[OF this] show ?thesis by (simp add: drawn_from_step)
  qed
qed

text \<open>A resampling loop never returns when every draw collides.\<close>

lemma index2_loop_diverges:
  assumes "\<forall>j. rand_index RAND_MAX num (g j) = index1"
  shows "index2_loop RAND_MAX num index1 index1 g = None"
proof (cases "index2_loop RAND_MAX num index1 index1 g")
  case None
  then show ?thesis .
next
  case (Some y)
  from index2_loop_post[OF Some] obtain d where
    "fst y \<noteq> index1" "if d = 0 then fst y = index1 else fst y = rand_index RAND_MAX num (g (d - 1))"
    by (auto simp: drawn_from_def)
  with assms show ?thesis by (auto split: if_splits)
qed

lemma index3_loop_diverges:
  assumes "\<forall>j. rand_index RAND_MAX num (g j) = index1 \<or> rand_index RAND_MAX num (g j) = index2"
      and "index3 = index1 \<or> index3 = index2"
  shows "index3_loop RAND_MAX num index1 index2 index3 g = None"
proof (cases "index3_loop RAND_MAX num index1 index2 index3 g")
  case None
  then show ?thesis .
next
  case (Some y)
  from index3_loop_post[OF Some] obtain d where
    "fst y \<noteq> index1" "fst y \<noteq> index2"
    "if d = 0 then fst y = index3 else fst y = rand_index RAND_MAX num (g (d - 1))"
    by (auto simp: drawn_from_def)
  with assms show ?thesis by (auto split: if_splits)
qed

subsection \<open>The trial and the loop of trials\<close>

lemma drawn_from_cases:
  assumes "drawn_from RAND_MAX num index0 g y"
  shows "(\<exists>d. snd y = rng_drop d g) \<and>
         (fst y = index0 \<or> (\<exists>j. fst y = rand_index RAND_MAX num (g j)))"
  using assms unfolding drawn_from_def by (auto split: if_splits)

lemma rng_drop_3: "rng_drop 1 (rng_drop 1 (rng_drop 1 g)) = rng_drop 3 g"
  by (simp add: rng_drop_def fun_eq_iff eval_nat_numeral)

lemma rng_drop_1_apply: "rng_drop 1 g 0 = g 1" "rng_drop 1 g 1 = g 2"
  by (simp_all add: rng_drop_def eval_nat_numeral)

lemma draw_indices_unfold:
  "draw_indices RAND_MAX num g =
     (case index2_loop RAND_MAX num (rand_index RAND_MAX num (g 0))
             (rand_index RAND_MAX num (g 1)) (rng_drop 3 g) of
        None \<Rightarrow> None
      | Some (index2, g4) \<Rightarrow>
          (case index3_loop RAND_MAX num (rand_index RAND_MAX num (g 0)) index2
                  (rand_index RAND_MAX num (g 2)) g4 of
             None \<Rightarrow> None
           | Some (index3, g5) \<Rightarrow>
               Some ((rand_index RAND_MAX num (g 0), index2, index3), g5)))"
  by (simp only: draw_indices_def rand_drop prod.case Let_def rng_drop_3 rng_drop_1_apply)

lemma draw_indices_post:
  assumes "draw_indices RAND_MAX num g = Some ((index1, index2, index3), g')"
  shows "index2 \<noteq> index1 \<and> index3 \<noteq> index1 \<and> index3 \<noteq> index2 \<and>
         (\<exists>d. 3 \<le> d \<and> g' = rng_drop d g) \<and>
         (\<forall>i \<in> {index1, index2, index3}. \<exists>j. i = rand_index RAND_MAX num (g j))"
proof -
  have i1: "index1 = rand_index RAND_MAX num (g 0)"
    using assms by (auto simp: draw_indices_unfold split: option.splits)
  from assms obtain g4 where
    l2: "index2_loop RAND_MAX num index1 (rand_index RAND_MAX num (g 1)) (rng_drop 3 g) = Some (index2, g4)"
    and l3: "index3_loop RAND_MAX num index1 index2 (rand_index RAND_MAX num (g 2)) g4 = Some (index3, g')"
    by (auto simp: draw_indices_unfold split: option.splits)
  from index2_loop_post[OF l2] have ne2: "index2 \<noteq> index1"
    and d2: "drawn_from RAND_MAX num (rand_index RAND_MAX num (g 1)) (rng_drop 3 g) (index2, g4)"
    by simp_all
  from index3_loop_post[OF l3] have ne3: "index3 \<noteq> index1" "index3 \<noteq> index2"
    and d3: "drawn_from RAND_MAX num (rand_index RAND_MAX num (g 2)) g4 (index3, g')"
    by simp_all
  from drawn_from_cases[OF d2] obtain e2 where g4: "g4 = rng_drop (e2 + 3) g"
    and v2: "\<exists>j. index2 = rand_index RAND_MAX num (g j)"
    by (auto simp: rng_drop_drop rng_drop_apply)
  from drawn_from_cases[OF d3] obtain e3 where g': "g' = rng_drop (e3 + (e2 + 3)) g"
    and v3: "\<exists>j. index3 = rand_index RAND_MAX num (g j)"
    by (auto simp: g4 rng_drop_drop rng_drop_apply)
  have "\<exists>d. 3 \<le> d \<and> g' = rng_drop d g"
    using g' by (intro exI[of _ "e3 + (e2 + 3)"]) simp
  moreover have "\<exists>j. index1 = rand_index RAND_MAX num (g j)" using i1 by blast
  ultimately show ?thesis using ne2 ne3 v2 v3 by simp
qed

lemma score_sample_Inr:
  assumes "score_sample eigen pts threshold (index1, index2, index3) (bestNum, bestPlane) = Inr best'"
  shows "0 \<le> index1 \<and> index1 < int (length pts) \<and> 0 \<le> index2 \<and> index2 < int (length pts) \<and>
         0 \<le> index3 \<and> index3 < int (length pts) \<and>
         (let samplePlane = EstimatePlaneOptimal eigen
                              [pts ! nat index1, pts ! nat index2, pts ! nat index3];
              score = inliersNum (PlanePointRANSACDifferences pts samplePlane threshold)
          in best' = (if score > bestNum then (score, samplePlane) else (bestNum, bestPlane)))"
  using assms
  by (auto simp: score_sample_def vec_at_def Let_def split: if_splits)

lemma ransac_loop_run_trials:
  "ransac_loop eigen RAND_MAX pts threshold iterateNum iter st =
     run_trials eigen RAND_MAX pts threshold (nat (iterateNum - iter)) st"
proof (induction eigen RAND_MAX pts threshold iterateNum iter st rule: ransac_loop.induct)
  case (1 eigen RAND_MAX pts threshold iterateNum iter st)
  show ?case
  proof (cases "iter < iterateNum")
    case False
    then show ?thesis by (subst ransac_loop.simps) simp
  next
    case True
    then have n: "nat (iterateNum - iter) = Suc (nat (iterateNum - (iter + 1)))" by simp
    show ?thesis
      using True "1.IH"
      by (subst ransac_loop.simps, subst n) (simp split: option.splits sum.splits)
  qed
qed

lemma collect_loop_eq:
  "collect_loop pts (map P pts) idx inlierPts = inlierPts @ filter P (drop idx pts)"
proof (induction pts "map P pts" idx inlierPts rule: collect_loop.induct)
  case (1 pts idx inlierPts)
  show ?case
  proof (cases "idx < length pts")
    case False
    then show ?thesis by (subst collect_loop.simps) simp
  next
    case True
    then have d: "drop idx pts = pts ! idx # drop (Suc idx) pts"
      by (simp add: Cons_nth_drop_Suc)
    show ?thesis
      using True "1.hyps" by (subst collect_loop.simps) (simp add: d)
  qed
qed

lemma EstimatePlaneRANSAC_eq:
  "EstimatePlaneRANSAC eigen RAND_MAX bestPlane0 pts threshold iterateNum g =
     (case run_trials eigen RAND_MAX pts threshold (nat iterateNum) ((0, bestPlane0), g) of
        None \<Rightarrow> None
      | Some (Inl e) \<Rightarrow> Some (Inl e)
      | Some (Inr (best, g')) \<Rightarrow>
          Some (Inr (EstimatePlaneOptimal eigen
                       (filter (\<lambda>p. plane_distance (snd best) p < threshold) pts), g')))"
  by (simp add: EstimatePlaneRANSAC_def ransac_loop_run_trials PPRD_eq collect_loop_eq Let_def
        split: option.splits sum.splits prod.splits)

lemma score_sample_value:
  assumes "0 \<le> index1" "index1 < int (length pts)" "0 \<le> index2" "index2 < int (length pts)"
          "0 \<le> index3" "index3 < int (length pts)"
  shows "score_sample eigen pts threshold (index1, index2, index3) (bestNum, bestPlane) =
           Inr (let samplePlane = EstimatePlaneOptimal eigen
                                    [pts ! nat index1, pts ! nat index2, pts ! nat index3];
                    score = inliersNum (PlanePointRANSACDifferences pts samplePlane threshold)
                in if score > bestNum then (score, samplePlane) else (bestNum, bestPlane))"
  using assms by (simp add: score_sample_def vec_at_def Let_def)

text \<open>
  The contents of \<^verbatim>\<open>bestPlane\<close> before the loop decide nothing but the plane that is left
  there while the best score is 0.
\<close>

lemma ransac_trial_start_plane:
  assumes t: "ransac_trial eigen RAND_MAX pts threshold ((bn, bp), g) = Some (Inr ((bn', bp'), g'))"
      and r: "bq = bp \<or> bn = 0"
  shows "\<exists>bq'. ransac_trial eigen RAND_MAX pts threshold ((bn, bq), g) = Some (Inr ((bn', bq'), g'))
               \<and> (bq' = bp' \<or> bn' = 0)"
proof -
  from t obtain index1 index2 index3 where
    dr: "draw_indices RAND_MAX (length pts) g = Some ((index1, index2, index3), g')"
    and sc: "score_sample eigen pts threshold (index1, index2, index3) (bn, bp) = Inr (bn', bp')"
    by (auto simp: ransac_trial_def split: option.splits sum.splits)
  let ?sp = "EstimatePlaneOptimal eigen [pts ! nat index1, pts ! nat index2, pts ! nat index3]"
  let ?score = "inliersNum (PlanePointRANSACDifferences pts ?sp threshold)"
  from score_sample_Inr[OF sc] have
    b: "0 \<le> index1" "index1 < int (length pts)" "0 \<le> index2" "index2 < int (length pts)"
       "0 \<le> index3" "index3 < int (length pts)"
    and v: "(bn', bp') = (if ?score > bn then (?score, ?sp) else (bn, bp))"
    by (simp_all add: Let_def)
  have q: "score_sample eigen pts threshold (index1, index2, index3) (bn, bq) =
             Inr (if ?score > bn then (?score, ?sp) else (bn, bq))"
    using score_sample_value[OF b] by (simp add: Let_def)
  show ?thesis
  proof (cases "?score > bn")
    case True
    with v q dr show ?thesis by (simp add: ransac_trial_def)
  next
    case False
    with v q dr r show ?thesis by (auto simp: ransac_trial_def)
  qed
qed

lemma run_trials_start_plane:
  assumes "run_trials eigen RAND_MAX pts threshold n ((bn, bp), g) = Some (Inr ((bn', bp'), g'))"
      and "bq = bp \<or> bn = 0"
  shows "\<exists>bq'. run_trials eigen RAND_MAX pts threshold n ((bn, bq), g) = Some (Inr ((bn', bq'), g'))
               \<and> (bq' = bp' \<or> bn' = 0)"
  using assms
proof (induction n arbitrary: bn bp bq g)
  case 0
  then show ?case by auto
next
  case (Suc n)
  from Suc.prems(1) obtain bn1 bp1 g1 where
    t: "ransac_trial eigen RAND_MAX pts threshold ((bn, bp), g) = Some (Inr ((bn1, bp1), g1))"
    and r: "run_trials eigen RAND_MAX pts threshold n ((bn1, bp1), g1) = Some (Inr ((bn', bp'), g'))"
    by (auto split: option.splits sum.splits)
  from ransac_trial_start_plane[OF t Suc.prems(2)] obtain bq1 where
    tq: "ransac_trial eigen RAND_MAX pts threshold ((bn, bq), g) = Some (Inr ((bn1, bq1), g1))"
    and rq: "bq1 = bp1 \<or> bn1 = 0"
    by blast
  from Suc.IH[OF r rq] obtain bq' where
    "run_trials eigen RAND_MAX pts threshold n ((bn1, bq1), g1) = Some (Inr ((bn', bq'), g'))"
    "bq' = bp' \<or> bn' = 0"
    by blast
  with tq show ?case by auto
qed

lemma ransac_trial_post:
  assumes "ransac_trial eigen RAND_MAX pts threshold ((bestNum, bestPlane), g) = Some (Inr (best', g'))"
  shows "\<exists>index1 index2 index3.
           distinct [index1, index2, index3] \<and>
           0 \<le> index1 \<and> index1 < int (length pts) \<and> 0 \<le> index2 \<and> index2 < int (length pts) \<and>
           0 \<le> index3 \<and> index3 < int (length pts) \<and>
           (\<exists>d. 3 \<le> d \<and> g' = rng_drop d g) \<and>
           (let samplePlane = EstimatePlaneOptimal eigen
                                [pts ! nat index1, pts ! nat index2, pts ! nat index3];
                score = inliersNum (PlanePointRANSACDifferences pts samplePlane threshold)
            in best' = (if score > bestNum then (score, samplePlane) else (bestNum, bestPlane)))"
proof -
  from assms obtain index1 index2 index3 where
    dr: "draw_indices RAND_MAX (length pts) g = Some ((index1, index2, index3), g')"
    and sc: "score_sample eigen pts threshold (index1, index2, index3) (bestNum, bestPlane) = Inr best'"
    by (auto simp: ransac_trial_def split: option.splits sum.splits)
  from draw_indices_post[OF dr] have "distinct [index1, index2, index3]"
    and "\<exists>d. 3 \<le> d \<and> g' = rng_drop d g" by auto
  with score_sample_Inr[OF sc] show ?thesis by blast
qed

lemma run_trials_post:
  assumes "run_trials eigen RAND_MAX pts threshold n ((bestNum, bestPlane), g)
             = Some (Inr ((bestNum', bestPlane'), g'))"
  shows "(\<exists>d. 3 * n \<le> d \<and> g' = rng_drop d g) \<and> bestNum \<le> bestNum' \<and>
         (bestNum' = bestNum \<longrightarrow> bestPlane' = bestPlane)"
  using assms
proof (induction n arbitrary: bestNum bestPlane g)
  case 0
  then show ?case by (auto intro: exI[of _ 0] simp: rng_drop_0)
next
  case (Suc n)
  from Suc.prems obtain bn1 bp1 g1 where
    t: "ransac_trial eigen RAND_MAX pts threshold ((bestNum, bestPlane), g) = Some (Inr ((bn1, bp1), g1))"
    and r: "run_trials eigen RAND_MAX pts threshold n ((bn1, bp1), g1)
              = Some (Inr ((bestNum', bestPlane'), g'))"
    by (auto split: option.splits sum.splits)
  from ransac_trial_post[OF t] obtain d1 where d1: "3 \<le> d1" "g1 = rng_drop d1 g"
    and s1: "bestNum \<le> bn1" "bn1 = bestNum \<longrightarrow> bp1 = bestPlane"
    by (auto simp: Let_def split: if_splits)
  from Suc.IH[OF r] obtain d where d: "3 * n \<le> d" "g' = rng_drop d g1"
    and s: "bn1 \<le> bestNum'" "bestNum' = bn1 \<longrightarrow> bestPlane' = bp1"
    by auto
  have "3 * Suc n \<le> d + d1 \<and> g' = rng_drop (d + d1) g"
    using d d1 by (simp add: rng_drop_drop)
  then have "\<exists>e. 3 * Suc n \<le> e \<and> g' = rng_drop e g" ..
  with s1 s show ?case by auto
qed

lemma ransac_trial_small_cloud:
  assumes "length pts < 3"
  shows "ransac_trial eigen RAND_MAX pts threshold (best, g) \<noteq> Some (Inr st')"
proof
  assume a: "ransac_trial eigen RAND_MAX pts threshold (best, g) = Some (Inr st')"
  obtain bestNum bestPlane where b: "best = (bestNum, bestPlane)" by (cases best)
  obtain best' g' where s: "st' = (best', g')" by (cases st')
  from ransac_trial_post[OF a[unfolded b s]] obtain index1 index2 index3 :: int where
    "distinct [index1, index2, index3]"
    "0 \<le> index1" "index1 < int (length pts)" "0 \<le> index2" "index2 < int (length pts)"
    "0 \<le> index3" "index3 < int (length pts)"
    by blast
  with assms show False by auto
qed

lemma EstimatePlaneRANSAC_small_cloud:
  assumes "length pts < 3" and "1 \<le> k"
  shows "EstimatePlaneRANSAC eigen RAND_MAX bestPlane0 pts threshold k g \<noteq> Some (Inr r)"
proof -
  from assms(2) obtain m where m: "nat k = Suc m" by (cases "nat k") auto
  show ?thesis
    using ransac_trial_small_cloud[OF assms(1), of eigen RAND_MAX threshold "(0, bestPlane0)" g]
    by (auto simp: EstimatePlaneRANSAC_eq m split: option.splits sum.splits)
qed

lemma draw_indices_diverges:
  assumes n: "num = 1 \<or> num = 2"
      and rng: "\<forall>j. 0 \<le> rand_index RAND_MAX num (g j) \<and> rand_index RAND_MAX num (g j) < int num"
  shows "draw_indices RAND_MAX num g = None"
proof (cases "index2_loop RAND_MAX num (rand_index RAND_MAX num (g 0))
                (rand_index RAND_MAX num (g 1)) (rng_drop 3 g)")
  case None
  then show ?thesis by (simp add: draw_indices_unfold)
next
  case (Some y)
  obtain index2 g4 where y: "y = (index2, g4)" by (cases y)
  let ?i1 = "rand_index RAND_MAX num (g 0)"
  from index2_loop_post[OF Some] have ne: "index2 \<noteq> ?i1"
    and df: "drawn_from RAND_MAX num (rand_index RAND_MAX num (g 1)) (rng_drop 3 g) (index2, g4)"
    by (simp_all add: y)
  from drawn_from_cases[OF df] obtain d where g4: "g4 = rng_drop d (rng_drop 3 g)"
    and v: "index2 = rand_index RAND_MAX num (g 1) \<or>
            (\<exists>j. index2 = rand_index RAND_MAX num (rng_drop 3 g j))"
    by auto
  from v rng have r2: "0 \<le> index2 \<and> index2 < int num"
    by (auto simp: rng_drop_apply)
  from rng have r1: "0 \<le> ?i1 \<and> ?i1 < int num" by blast
  have two: "i = ?i1 \<or> i = index2" if "0 \<le> i" "i < int num" for i
    using that r1 r2 ne n by auto
  have "\<forall>j. rand_index RAND_MAX num (g4 j) = ?i1 \<or> rand_index RAND_MAX num (g4 j) = index2"
    using rng two by (simp add: g4 rng_drop_apply)
  moreover have "rand_index RAND_MAX num (g 2) = ?i1 \<or> rand_index RAND_MAX num (g 2) = index2"
    using rng two by simp
  ultimately have "index3_loop RAND_MAX num ?i1 index2 (rand_index RAND_MAX num (g 2)) g4 = None"
    by (rule index3_loop_diverges)
  with Some y show ?thesis by (simp add: draw_indices_unfold)
qed

lemma EstimatePlaneRANSAC_diverges:
  assumes "length pts = 1 \<or> length pts = 2" and "1 \<le> k"
      and "\<forall>j. 0 \<le> rand_index RAND_MAX (length pts) (g j) \<and>
               rand_index RAND_MAX (length pts) (g j) < int (length pts)"
  shows "EstimatePlaneRANSAC eigen RAND_MAX bestPlane0 pts threshold k g = None"
proof -
  from assms(2) obtain m where m: "nat k = Suc m" by (cases "nat k") auto
  show ?thesis
    by (simp add: EstimatePlaneRANSAC_eq m ransac_trial_def draw_indices_diverges[OF assms(1,3)])
qed

section \<open>The examples, evaluated\<close>

lemma scatter_triangle_z: "scatter (triangle_z h) = [[8, 0, 0], [0, 6, 0], [0, 0, 0]]"
  by (simp add: scatter_def triangle_z_def mean_def centred_def Let_def)

lemma mean_triangle_z: "mean (triangle_z h) = Point3f 0 1 h"
  by (simp add: triangle_z_def mean_def)

lemma is_eigenpair_diag:
  assumes "is_eigenpair [[d0, 0, 0], [0, d1, 0], [0, 0, d2]] mu v"
  shows "mu = d0 \<or> mu = d1 \<or> mu = d2"
proof -
  from assms have "length v = 3" by (simp add: is_eigenpair_def)
  then obtain a b c where v: "v = [a, b, c]"
    by (auto simp: numeral_3_eq_3 length_Suc_conv)
  from assms have "a \<noteq> 0 \<or> b \<noteq> 0 \<or> c \<noteq> 0" and "d0 * a = mu * a" "d1 * b = mu * b" "d2 * c = mu * c"
    by (auto simp: is_eigenpair_def v mat_vec_def dot_def)
  then show ?thesis by auto
qed

lemma eigen_contract_triangle_z:
  "eigen_contract (scatter (triangle_z h)) (eigen_sorted_diagonal (scatter (triangle_z h)))"
proof -
  have rows: "dot ([[1, 0, 0], [0, 1, 0], [0, 0, 1]] ! i) ([[1, 0, 0], [0, 1, 0], [0, 0, 1]] ! i) = 1 \<and>
        is_eigenpair [[8, 0, 0], [0, 6, 0], [0, 0, 0]] ([8, 6, 0] ! i)
          ([[1, 0, 0], [0, 1, 0], [0, 0, 1]] ! i)" if "i < 3" for i
  proof -
    from that have "i = 0 \<or> i = 1 \<or> i = 2" by auto
    then show ?thesis
      by (auto simp: dot_def is_eigenpair_def mat_vec_def)
  qed
  have all: "mu \<in> set [8, 6, 0]" if "is_eigenpair [[8, 0, 0], [0, 6, 0], [0, 0, 0]] mu v" for mu v
    using is_eigenpair_diag[OF that] by auto
  show ?thesis
    unfolding scatter_triangle_z eigen_contract_def eigen_sorted_diagonal_def
    using rows all by auto
qed

lemma EstimatePlaneOptimal_triangle_z:
  "EstimatePlaneOptimal eigen_sorted_diagonal (triangle_z h) = PlaneParams 0 0 1 (- h)"
  by (simp add: EstimatePlaneOptimal_eq scatter_triangle_z mean_triangle_z
      eigen_sorted_diagonal_def Let_def)

lemma EstimatePlaneOptimal_pair_x:
  "EstimatePlaneOptimal eigen_sorted_diagonal pair_x = PlaneParams 0 0 1 0"
  by (simp add: EstimatePlaneOptimal_eq scatter_def mean_def centred_def pair_x_def
      eigen_sorted_diagonal_def Let_def)

lemma PPRD_line_z_0:
  "PlanePointRANSACDifferences line_z plane_z0 0 =
     \<lparr>inliersNum = 0, distances = [0, 1, 2], isInliers = [False, False, False]\<rparr>"
  by (simp add: PPRD_eq line_z_def plane_z0_def plane_distance_def)

text \<open>
  The classifier on the rounding point, with the threshold 1. In single precision the sum
  \<open>16777216 + 1\<close> is rounded to 16777216: the distance is 0 and the point is an inlier. In exact
  arithmetic the distance is 1 and the point is an outlier.
\<close>

lemma single_exponent:
  assumes "pow2 e \<le> \<bar>x\<bar>" and "\<bar>x\<bar> < pow2 (e + 1)"
  shows "single x = of_int (round_to_even (x / pow2 (e - 23))) * pow2 (e - 23)"
proof -
  have p: "pow2 k = 2 powr (of_int k)" for k
    by (simp add: pow2_def powr_realpow[symmetric] powr_minus divide_simps flip: powr_realpow)
  have "0 < pow2 e" by (simp add: pow2_def)
  with assms have x: "0 < \<bar>x\<bar>" by linarith
  then have "x \<noteq> 0" by auto
  moreover have "\<lfloor>log 2 \<bar>x\<bar>\<rfloor> = e"
    using assms x by (simp add: floor_log_eq_powr_iff p)
  ultimately show ?thesis by (simp add: single_def Let_def)
qed

lemma single_values:
  "single 0 = 0" "single 1 = 1" "single 16777216 = 16777216" "single (- 16777216) = - 16777216"
  "single 16777217 = 16777216"
proof -
  show "single 0 = 0" by (simp add: single_def)
  show "single 1 = 1"
    by (subst single_exponent[of 0]) (simp_all add: pow2_def round_to_even_def)
  show "single 16777216 = 16777216"
    by (subst single_exponent[of 24]) (simp_all add: pow2_def round_to_even_def)
  show "single (- 16777216) = - 16777216"
    by (subst single_exponent[of 24]) (simp_all add: pow2_def round_to_even_def)
  show "single 16777217 = 16777216"
    by (subst single_exponent[of 24]) (simp_all add: pow2_def round_to_even_def)
qed

lemma classifier_single_precision:
  "PlanePointRANSACDifferences_arith single_arith rounding_point plane_111 1 =
     \<lparr>inliersNum = 1, distances = [0], isInliers = [True]\<rparr>"
  by (simp add: PPRD_arith_eq arith_distance_def single_arith_def rounding_point_def plane_111_def
      single_values)

lemma classifier_exact_arithmetic:
  "PlanePointRANSACDifferences_arith exact_arith rounding_point plane_111 1 =
     \<lparr>inliersNum = 0, distances = [1], isInliers = [False]\<rparr>"
  by (simp add: PPRD_arith_eq arith_distance_def exact_arith_def rounding_point_def plane_111_def)

lemma mod6_cases: "j mod 6 = 0 \<or> j mod 6 = 1 \<or> j mod 6 = 2 \<or> j mod 6 = 3 \<or> j mod 6 = 4 \<or> j mod (6::nat) = 5"
  by presburger

lemma draws6_index: "rand_index 32767 6 (draws6 j) = int (j mod 6)"
  using mod6_cases[of j] by (auto simp: rand_index_div draws6_def rng_cycle_def)

lemma mod6_distinct:
  "(1 + d) mod 6 \<noteq> d mod (6::nat)" "(2 + d) mod 6 \<noteq> d mod (6::nat)"
  "(2 + d) mod 6 \<noteq> (1 + d) mod (6::nat)"
proof -
  have a: "(1 + d) mod 6 = (1 + d mod 6) mod 6" "(2 + d) mod 6 = (2 + d mod 6) mod 6"
    by (rule mod_add_right_eq[symmetric])+
  show "(1 + d) mod 6 \<noteq> d mod (6::nat)" "(2 + d) mod 6 \<noteq> d mod (6::nat)"
    "(2 + d) mod 6 \<noteq> (1 + d) mod (6::nat)"
    unfolding a using mod6_cases[of d] by (elim disjE; simp)+
qed

lemma draw_indices_draws6:
  "draw_indices 32767 6 (rng_drop d draws6) =
     Some ((int (d mod 6), int ((1 + d) mod 6), int ((2 + d) mod 6)), rng_drop (3 + d) draws6)"
  using mod6_distinct[of d]
  by (simp add: draw_indices_unfold rng_drop_apply draws6_index index2_loop_stop
      index3_loop_stop rng_drop_drop)

lemma length_two_triangles: "length two_triangles = 6"
  by (simp add: two_triangles_def triangle_z_def)

lemma inliers_two_triangles:
  "filter (\<lambda>p. plane_distance (PlaneParams 0 0 1 0) p < 1) two_triangles = triangle_z 0"
  "filter (\<lambda>p. plane_distance (PlaneParams 0 0 1 (- 5)) p < 1) two_triangles = triangle_z 5"
  by (simp_all add: two_triangles_def triangle_z_def plane_distance_def)

lemma score_sample_low:
  "score_sample eigen_sorted_diagonal two_triangles 1 (0, 1, 2) (bestNum, bestPlane) =
     Inr (if 3 > bestNum then (3, PlaneParams 0 0 1 0) else (bestNum, bestPlane))"
proof -
  have s: "[two_triangles ! 0, two_triangles ! 1, two_triangles ! 2] = triangle_z 0"
    by (simp add: two_triangles_def triangle_z_def)
  have v: "vec_at two_triangles 0 = Inr (two_triangles ! 0)" "vec_at two_triangles 1 = Inr (two_triangles ! 1)"
     "vec_at two_triangles 2 = Inr (two_triangles ! 2)"
    by (simp_all add: vec_at_def length_two_triangles)
  show ?thesis
    unfolding score_sample_def prod.case v sum.case Let_def s EstimatePlaneOptimal_triangle_z
    by (simp add: PPRD_eq inliers_two_triangles triangle_z_def)
qed

lemma score_sample_high:
  "score_sample eigen_sorted_diagonal two_triangles 1 (3, 4, 5) (bestNum, bestPlane) =
     Inr (if 3 > bestNum then (3, PlaneParams 0 0 1 (- 5)) else (bestNum, bestPlane))"
proof -
  have s: "[two_triangles ! 3, two_triangles ! 4, two_triangles ! 5] = triangle_z 5"
    by (simp add: two_triangles_def triangle_z_def)
  have v: "vec_at two_triangles 3 = Inr (two_triangles ! 3)" "vec_at two_triangles 4 = Inr (two_triangles ! 4)"
     "vec_at two_triangles 5 = Inr (two_triangles ! 5)"
    by (simp_all add: vec_at_def length_two_triangles)
  show ?thesis
    unfolding score_sample_def prod.case v sum.case Let_def s EstimatePlaneOptimal_triangle_z
    by (simp add: PPRD_eq inliers_two_triangles triangle_z_def)
qed

lemma ransac_trial_low:
  "ransac_trial eigen_sorted_diagonal 32767 two_triangles 1 ((bestNum, bestPlane), draws6) =
     Some (Inr ((if 3 > bestNum then (3, PlaneParams 0 0 1 0) else (bestNum, bestPlane)),
                rng_drop 3 draws6))"
  using draw_indices_draws6[of 0] score_sample_low[of bestNum bestPlane]
  by (simp add: ransac_trial_def length_two_triangles rng_drop_0)

lemma ransac_trial_high:
  "ransac_trial eigen_sorted_diagonal 32767 two_triangles 1 ((bestNum, bestPlane), rng_drop 3 draws6) =
     Some (Inr ((if 3 > bestNum then (3, PlaneParams 0 0 1 (- 5)) else (bestNum, bestPlane)),
                rng_drop 6 draws6))"
  using draw_indices_draws6[of 3] score_sample_high[of bestNum bestPlane]
  by (simp add: ransac_trial_def length_two_triangles)

lemma EstimatePlaneRANSAC_low:
  "EstimatePlaneRANSAC eigen_sorted_diagonal 32767 plane_z0 two_triangles 1 1 draws6 =
     Some (Inr (PlaneParams 0 0 1 0, rng_drop 3 draws6))"
  by (simp add: EstimatePlaneRANSAC_eq ransac_trial_low inliers_two_triangles
      EstimatePlaneOptimal_triangle_z)

lemma EstimatePlaneRANSAC_high:
  "EstimatePlaneRANSAC eigen_sorted_diagonal 32767 plane_z0 two_triangles 1 1 (rng_drop 3 draws6) =
     Some (Inr (PlaneParams 0 0 1 (- 5), rng_drop 6 draws6))"
  by (simp add: EstimatePlaneRANSAC_eq ransac_trial_high inliers_two_triangles
      EstimatePlaneOptimal_triangle_z)

lemma EstimatePlaneRANSAC_two:
  "EstimatePlaneRANSAC eigen_sorted_diagonal 32767 plane_z0 two_triangles 1 2 draws6 =
     Some (Inr (PlaneParams 0 0 1 0, rng_drop 6 draws6))"
proof -
  have n: "nat 2 = Suc (Suc 0)" by simp
  show ?thesis
    unfolding EstimatePlaneRANSAC_eq n
    by (simp add: ransac_trial_low ransac_trial_high inliers_two_triangles
        EstimatePlaneOptimal_triangle_z)
qed

lemma draws2_index: "rand_index 32767 2 (draws2 j) = (if even j then 0 else 1)"
  by (simp add: rand_index_div draws2_def)

lemma draws2_range:
  "\<forall>j. 0 \<le> rand_index 32767 (length pair_x) (draws2 j) \<and>
       rand_index 32767 (length pair_x) (draws2 j) < int (length pair_x)"
proof -
  have l: "length pair_x = 2" by (simp add: pair_x_def)
  show ?thesis unfolding l by (simp add: draws2_index)
qed

lemma EstimatePlaneRANSAC_pair_x:
  "EstimatePlaneRANSAC eigen_sorted_diagonal 32767 plane_z0 pair_x 1 1 draws2 = None"
  by (rule EstimatePlaneRANSAC_diverges[OF _ _ draws2_range]) (simp_all add: pair_x_def)

lemma draws_abort_index:
  "rand_index 32767 6 (draws_abort 0) = 0" "rand_index 32767 6 (draws_abort 1) = 1"
  "rand_index 32767 6 (draws_abort 2) = 2" "rand_index 32767 6 (draws_abort 3) = 6"
  "rand_index 32767 6 (draws_abort 4) = 0" "rand_index 32767 6 (draws_abort 5) = 1"
  "rand_index 32767 6 (draws_abort (Suc 0)) = 1"
  by (simp_all add: rand_index_div draws_abort_def rng_cycle_def)

lemma draw_indices_draws_abort:
  "draw_indices 32767 6 draws_abort = Some ((0, 1, 2), rng_drop 3 draws_abort)"
  "draw_indices 32767 6 (rng_drop 3 draws_abort) = Some ((6, 0, 1), rng_drop 6 draws_abort)"
  by (simp_all add: draw_indices_unfold rng_drop_apply draws_abort_index index2_loop_stop
      index3_loop_stop rng_drop_drop)

lemma ransac_trial_draws_abort:
  "ransac_trial eigen_sorted_diagonal 32767 two_triangles 1 ((0, plane_z0), draws_abort) =
     Some (Inr ((3, PlaneParams 0 0 1 0), rng_drop 3 draws_abort))"
  "ransac_trial eigen_sorted_diagonal 32767 two_triangles 1
       ((3, PlaneParams 0 0 1 0), rng_drop 3 draws_abort) = Some (Inl OutOfRange)"
proof -
  show "ransac_trial eigen_sorted_diagonal 32767 two_triangles 1 ((0, plane_z0), draws_abort) =
     Some (Inr ((3, PlaneParams 0 0 1 0), rng_drop 3 draws_abort))"
    using draw_indices_draws_abort(1) score_sample_low[of 0 plane_z0]
    by (simp add: ransac_trial_def length_two_triangles)
  have "vec_at two_triangles 6 = Inl OutOfRange"
    by (simp add: vec_at_def length_two_triangles)
  then have "score_sample eigen_sorted_diagonal two_triangles 1 (6, 0, 1) (3, PlaneParams 0 0 1 0)
               = Inl OutOfRange"
    by (simp add: score_sample_def)
  then show "ransac_trial eigen_sorted_diagonal 32767 two_triangles 1
       ((3, PlaneParams 0 0 1 0), rng_drop 3 draws_abort) = Some (Inl OutOfRange)"
    using draw_indices_draws_abort(2) by (simp add: ransac_trial_def length_two_triangles)
qed

lemma EstimatePlaneRANSAC_other_start:
  "EstimatePlaneRANSAC eigen_sorted_diagonal 32767 (PlaneParams 0 0 0 0) two_triangles 1 2 draws6 =
     Some (Inr (PlaneParams 0 0 1 0, rng_drop 6 draws6))"
proof -
  have n: "nat 2 = Suc (Suc 0)" by simp
  show ?thesis
    unfolding EstimatePlaneRANSAC_eq n
    by (simp add: ransac_trial_low ransac_trial_high inliers_two_triangles
        EstimatePlaneOptimal_triangle_z)
qed

lemma draws_max_values:
  "draws_max 0 = 32767" "draws_max 1 = 0" "draws_max (Suc 0) = 0" "draws_max 2 = 16384"
  by (simp_all add: draws_max_def rng_cycle_def)

lemma draw_indices_draws_max:
  "draw_indices 32767 3 draws_max = Some ((3, 0, 1), rng_drop 3 draws_max)"
  by (simp add: draw_indices_unfold draws_max_values rand_index_div index2_loop_stop
      index3_loop_stop)

section \<open>The claims\<close>

text \<open>
  C1. For a cloud of at least three points, and an eigen-solver that keeps its contract on
  the scatter matrix \<open>S\<close> of the cloud, \<^verbatim>\<open>EstimatePlaneOptimal\<close> returns \<open>(A, B, C, D)\<close>
  where \<open>(A, B, C)\<close> has norm 1 and is an eigenvector of \<open>S\<close> for an eigenvalue that no
  eigenvalue of \<open>S\<close> is below, and \<open>D = -(A t\<^sub>x + B t\<^sub>y + C t\<^sub>z)\<close> for the centroid \<open>t\<close>:
  the plane passes through the centroid.
\<close>

theorem EstimatePlaneOptimal_spec:
  assumes "3 \<le> length pts"
      and "eigen_contract (scatter pts) (eigen (scatter pts))"
  shows "(let t = mean pts; P = EstimatePlaneOptimal eigen pts; n = [pA P, pB P, pC P]
          in dot n n = 1 \<and>
             (\<exists>lam. is_eigenpair (scatter pts) lam n \<and>
                    (\<forall>mu v. is_eigenpair (scatter pts) mu v \<longrightarrow> lam \<le> mu)) \<and>
             pD P = - (pA P * px t + pB P * py t + pC P * pz t) \<and>
             pA P * px t + pB P * py t + pC P * pz t + pD P = 0)"
proof -
  obtain evals evecs where e: "eigen (scatter pts) = (evals, evecs)"
    by (cases "eigen (scatter pts)")
  from assms(2) e have len: "length evals = 3"
    and row: "dot (evecs ! 2) (evecs ! 2) = 1" "is_eigenpair (scatter pts) (evals ! 2) (evecs ! 2)"
    and ord: "evals ! 1 \<le> evals ! 0" "evals ! 2 \<le> evals ! 1"
    and all: "\<And>mu v. is_eigenpair (scatter pts) mu v \<Longrightarrow> mu \<in> set evals"
    by (auto simp: eigen_contract_def)
  from row(2) have "length (evecs ! 2) = 3" by (simp add: is_eigenpair_def)
  then obtain a b c where n: "evecs ! 2 = [a, b, c]"
    by (auto simp: numeral_3_eq_3 length_Suc_conv)
  have P: "EstimatePlaneOptimal eigen pts =
             PlaneParams a b c (- (a * px (mean pts) + b * py (mean pts) + c * pz (mean pts)))"
    by (simp add: EstimatePlaneOptimal_eq Let_def e n)
  have least: "evals ! 2 \<le> mu" if "is_eigenpair (scatter pts) mu v" for mu v
  proof -
    from all[OF that] have "mu \<in> set [evals ! 0, evals ! 1, evals ! 2]"
      using list3[OF len] by metis
    with ord show ?thesis by auto
  qed
  have "is_eigenpair (scatter pts) (evals ! 2) [a, b, c] \<and>
        (\<forall>mu v. is_eigenpair (scatter pts) mu v \<longrightarrow> evals ! 2 \<le> mu)"
    using row(2) least by (simp add: n)
  then have "\<exists>lam. is_eigenpair (scatter pts) lam [a, b, c] \<and>
        (\<forall>mu v. is_eigenpair (scatter pts) mu v \<longrightarrow> lam \<le> mu)" ..
  moreover have "dot [a, b, c] [a, b, c] = 1"
    using row(1) by (simp add: n)
  ultimately show ?thesis
    by (simp add: P Let_def)
qed

text \<open>Witness of C1: the triangle in the plane \<open>z = 0\<close>; the fitted plane is \<open>z = 0\<close>.\<close>

theorem EstimatePlaneOptimal_spec_witness:
  "3 \<le> length (triangle_z 0) \<and>
   eigen_contract (scatter (triangle_z 0)) (eigen_sorted_diagonal (scatter (triangle_z 0))) \<and>
   (let t = mean (triangle_z 0); P = EstimatePlaneOptimal eigen_sorted_diagonal (triangle_z 0);
        n = [pA P, pB P, pC P]
    in dot n n = 1 \<and>
       (\<exists>lam. is_eigenpair (scatter (triangle_z 0)) lam n \<and>
              (\<forall>mu v. is_eigenpair (scatter (triangle_z 0)) mu v \<longrightarrow> lam \<le> mu)) \<and>
       pD P = - (pA P * px t + pB P * py t + pC P * pz t) \<and>
       pA P * px t + pB P * py t + pC P * pz t + pD P = 0) \<and>
   EstimatePlaneOptimal eigen_sorted_diagonal (triangle_z 0) = PlaneParams 0 0 1 0"
proof -
  have l: "3 \<le> length (triangle_z 0)" by (simp add: triangle_z_def)
  have v: "EstimatePlaneOptimal eigen_sorted_diagonal (triangle_z 0) = PlaneParams 0 0 1 0"
    by (simp add: EstimatePlaneOptimal_triangle_z)
  have c: "eigen_contract (scatter (triangle_z 0)) (eigen_sorted_diagonal (scatter (triangle_z 0)))"
    by (rule eigen_contract_triangle_z)
  from EstimatePlaneOptimal_spec[of "triangle_z 0" eigen_sorted_diagonal, OF l c] l c v
  show ?thesis by blast
qed

text \<open>
  C2. For every point cloud, plane \<open>(A, B, C, D)\<close> and threshold, in whatever arithmetic
  the floats have, the classifier returns distances and flags of the length of the cloud;
  the distance \<open>i\<close> is \<open>|A x\<^sub>i + B y\<^sub>i + C z\<^sub>i + D|\<close>, the flag \<open>i\<close> is set iff that distance
  is below the threshold by the comparison \<^verbatim>\<open><\<close>, and the inlier count is the number of
  set flags. Where \<^verbatim>\<open><\<close> is strict, a point whose distance is the threshold is an outlier.
\<close>

theorem classifier_spec:
  "(let r = PlanePointRANSACDifferences_arith ar pts plane threshold
    in length (distances r) = length pts \<and> length (isInliers r) = length pts \<and>
       (\<forall>i<length pts.
          distances r ! i =
            fabs ar
              (fadd ar
                 (fadd ar
                    (fadd ar (fmul ar (pA plane) (px (pts ! i))) (fmul ar (pB plane) (py (pts ! i))))
                    (fmul ar (pC plane) (pz (pts ! i))))
                 (pD plane)) \<and>
          (isInliers r ! i \<longleftrightarrow> fless ar (distances r ! i) threshold) \<and>
          (\<not> fless ar threshold threshold \<and> distances r ! i = threshold \<longrightarrow> \<not> isInliers r ! i)) \<and>
       inliersNum r = int (length (filter id (isInliers r))))"
  by (simp add: PPRD_arith_eq Let_def arith_distance_def filter_id_map)

text \<open>
  Witness of C2, in exact arithmetic, which is the one of floats on these inputs: the
  second point of \<open>line_z\<close> is at distance 1 of the plane \<open>z = 0\<close>; with the threshold 1 it
  is an outlier.
\<close>

theorem classifier_spec_witness:
  "(1::nat) < length line_z \<and> \<not> fless exact_arith 1 1 \<and>
   distances (PlanePointRANSACDifferences_arith exact_arith line_z plane_z0 1) ! 1 = 1 \<and>
   \<not> isInliers (PlanePointRANSACDifferences_arith exact_arith line_z plane_z0 1) ! 1 \<and>
   inliersNum (PlanePointRANSACDifferences_arith exact_arith line_z plane_z0 1) = 1 \<and>
   inliersNum (PlanePointRANSACDifferences_arith exact_arith line_z plane_z0 1) =
     int (length (filter id
       (isInliers (PlanePointRANSACDifferences_arith exact_arith line_z plane_z0 1))))"
proof -
  let ?r = "PlanePointRANSACDifferences_arith exact_arith line_z plane_z0 1"
  have l: "(1::nat) < length line_z" by (simp add: line_z_def)
  have s: "\<not> fless exact_arith 1 (1::real)" by (simp add: exact_arith_def)
  have all: "\<forall>i<length line_z.
          distances ?r ! i =
            fabs exact_arith
              (fadd exact_arith
                 (fadd exact_arith
                    (fadd exact_arith (fmul exact_arith (pA plane_z0) (px (line_z ! i)))
                       (fmul exact_arith (pB plane_z0) (py (line_z ! i))))
                    (fmul exact_arith (pC plane_z0) (pz (line_z ! i))))
                 (pD plane_z0)) \<and>
          (isInliers ?r ! i \<longleftrightarrow> fless exact_arith (distances ?r ! i) 1) \<and>
          (\<not> fless exact_arith 1 1 \<and> distances ?r ! i = 1 \<longrightarrow> \<not> isInliers ?r ! i)"
    and cnt: "inliersNum ?r = int (length (filter id (isInliers ?r)))"
    using classifier_spec[of exact_arith line_z plane_z0 1] unfolding Let_def by blast+
  from all l have one: "distances ?r ! 1 =
            fabs exact_arith
              (fadd exact_arith
                 (fadd exact_arith
                    (fadd exact_arith (fmul exact_arith (pA plane_z0) (px (line_z ! 1)))
                       (fmul exact_arith (pB plane_z0) (py (line_z ! 1))))
                    (fmul exact_arith (pC plane_z0) (pz (line_z ! 1))))
                 (pD plane_z0))"
    and out: "\<not> fless exact_arith 1 1 \<and> distances ?r ! 1 = 1 \<longrightarrow> \<not> isInliers ?r ! 1"
    by blast+
  from one have d: "distances ?r ! 1 = 1"
    by (simp add: line_z_def plane_z0_def exact_arith_def)
  with out s have f: "\<not> isInliers ?r ! 1" by blast
  have n: "inliersNum ?r = 1"
    by (simp add: PPRD_arith_eq arith_distance_exact)
       (simp add: exact_arith_def line_z_def plane_z0_def plane_distance_def)
  from l s d f n cnt show ?thesis by blast
qed

text \<open>
  C3: the source at a failing input. Six points, two iterations. The first trial draws the
  indices 0, 1 and 2 and ends with the score 3. In the second trial \<^verbatim>\<open>rand()\<close> returns
  \<^verbatim>\<open>RAND_MAX\<close>: the indices are 6, 0 and 1, \<^verbatim>\<open>pts.at(6)\<close> throws, the loop is left after
  one trial and the estimator returns no plane.
\<close>

theorem trial_loop_aborts:
  "ransac_trial eigen_sorted_diagonal 32767 two_triangles 1 ((0, plane_z0), draws_abort) =
     Some (Inr ((3, PlaneParams 0 0 1 0), rng_drop 3 draws_abort)) \<and>
   draw_indices 32767 (length two_triangles) (rng_drop 3 draws_abort) =
     Some ((6, 0, 1), rng_drop 6 draws_abort) \<and>
   ransac_loop eigen_sorted_diagonal 32767 two_triangles 1 2 0 ((0, plane_z0), draws_abort) =
     Some (Inl OutOfRange) \<and>
   EstimatePlaneRANSAC eigen_sorted_diagonal 32767 plane_z0 two_triangles 1 2 draws_abort =
     Some (Inl OutOfRange)"
proof -
  have n: "nat (2 - 0) = Suc (Suc 0)" "nat 2 = Suc (Suc 0)" by simp_all
  have l: "ransac_loop eigen_sorted_diagonal 32767 two_triangles 1 2 0 ((0, plane_z0), draws_abort) =
     Some (Inl OutOfRange)"
    unfolding ransac_loop_run_trials n by (simp add: ransac_trial_draws_abort)
  then have "EstimatePlaneRANSAC eigen_sorted_diagonal 32767 plane_z0 two_triangles 1 2 draws_abort =
     Some (Inl OutOfRange)"
    by (simp add: EstimatePlaneRANSAC_def)
  with l show ?thesis
    by (simp add: ransac_trial_draws_abort(1) length_two_triangles draw_indices_draws_abort(2))
qed



text \<open>
  C5, as stated, fails: no function of the source checks the size of the cloud. On the
  two points of \<open>pair_x\<close> the fitter returns a plane, and the RANSAC estimator starts its
  first trial and never returns.
\<close>

theorem small_cloud_counterexample:
  "EstimatePlaneOptimal eigen_sorted_diagonal pair_x = PlaneParams 0 0 1 0 \<and>
   EstimatePlaneRANSAC eigen_sorted_diagonal 32767 plane_z0 pair_x 1 1 draws2 = None"
  using EstimatePlaneOptimal_pair_x EstimatePlaneRANSAC_pair_x by simp

text \<open>
  C5, amended. For a cloud of fewer than three points there is no error for the size: the
  fitter, on one or two points, returns the plane of the third row of the eigenvectors
  through the centroid, as for any cloud; the RANSAC estimator with \<open>k \<ge> 1\<close> starts its
  first trial, cannot find three distinct indices in range, and never returns a plane.
\<close>

theorem small_cloud_no_error:
  assumes "length pts < 3"
  shows "(0 < length pts \<longrightarrow>
            EstimatePlaneOptimal eigen pts =
              (let t = mean pts; v = snd (eigen (scatter pts)) ! 2
               in PlaneParams (v ! 0) (v ! 1) (v ! 2)
                    (- (v ! 0 * px t + v ! 1 * py t + v ! 2 * pz t)))) \<and>
         (1 \<le> k \<longrightarrow>
            EstimatePlaneRANSAC eigen RAND_MAX bestPlane0 pts threshold k g = None \<or>
            EstimatePlaneRANSAC eigen RAND_MAX bestPlane0 pts threshold k g = Some (Inl OutOfRange))"
proof (rule conjI; rule impI)
  show "EstimatePlaneOptimal eigen pts =
              (let t = mean pts; v = snd (eigen (scatter pts)) ! 2
               in PlaneParams (v ! 0) (v ! 1) (v ! 2)
                    (- (v ! 0 * px t + v ! 1 * py t + v ! 2 * pz t)))"
    by (simp add: EstimatePlaneOptimal_eq Let_def)
next
  assume k: "1 \<le> k"
  let ?r = "EstimatePlaneRANSAC eigen RAND_MAX bestPlane0 pts threshold k g"
  show "?r = None \<or> ?r = Some (Inl OutOfRange)"
  proof (cases ?r)
    case None
    then show ?thesis by simp
  next
    case (Some s)
    show ?thesis
    proof (cases s)
      case (Inl e)
      with Some show ?thesis by (cases e) simp
    next
      case (Inr r)
      with Some EstimatePlaneRANSAC_small_cloud[OF assms k, of eigen RAND_MAX bestPlane0 threshold g r]
      show ?thesis by simp
    qed
  qed
qed

text \<open>Witness of the amended C5, on \<open>pair_x\<close>.\<close>

theorem small_cloud_no_error_witness:
  "length pair_x < 3 \<and> 0 < length pair_x \<and> (1::int) \<le> 1 \<and>
   EstimatePlaneOptimal eigen_sorted_diagonal pair_x =
     (let t = mean pair_x; v = snd (eigen_sorted_diagonal (scatter pair_x)) ! 2
      in PlaneParams (v ! 0) (v ! 1) (v ! 2) (- (v ! 0 * px t + v ! 1 * py t + v ! 2 * pz t))) \<and>
   (EstimatePlaneRANSAC eigen_sorted_diagonal 32767 plane_z0 pair_x 1 1 draws2 = None \<or>
    EstimatePlaneRANSAC eigen_sorted_diagonal 32767 plane_z0 pair_x 1 1 draws2 = Some (Inl OutOfRange))"
proof -
  have h: "length pair_x < 3" "0 < length pair_x" "(1::int) \<le> 1"
    by (simp_all add: pair_x_def)
  from small_cloud_no_error[OF h(1), of eigen_sorted_diagonal 1 32767 plane_z0 1 draws2] h
  show ?thesis by blast
qed

text \<open>
  C6, as stated, fails: no parameter is checked. The classifier with the threshold 0
  returns a classification: the three distances, no flag set, the inlier count 0. With the
  iteration count 0 the loop of the estimator is left at once, and nothing is reported.
\<close>

theorem parameter_check_counterexample:
  "PlanePointRANSACDifferences line_z plane_z0 0 =
     \<lparr>inliersNum = 0, distances = [0, 1, 2], isInliers = [False, False, False]\<rparr> \<and>
   ransac_loop eigen_sorted_diagonal 32767 (triangle_z 0) 1 0 0 ((0, plane_z0), draws6) =
     Some (Inr ((0, plane_z0), draws6))"
  by (simp add: PPRD_line_z_0 ransac_loop_run_trials)

text \<open>
  C6, amended. A threshold \<open>\<le> 0\<close> is not rejected: the classifier returns a distance and a
  flag for every point, no flag set, and the inlier count 0. An iteration count \<open>\<le> 0\<close> is
  not rejected: the loop of the RANSAC estimator runs no trial, draws no random number,
  and leaves \<^verbatim>\<open>bestSampleInlierNum\<close> and \<^verbatim>\<open>bestPlane\<close> as they were.
\<close>

theorem no_parameter_check:
  "(threshold \<le> 0 \<longrightarrow>
      length (distances (PlanePointRANSACDifferences pts plane threshold)) = length pts \<and>
      isInliers (PlanePointRANSACDifferences pts plane threshold) = replicate (length pts) False \<and>
      inliersNum (PlanePointRANSACDifferences pts plane threshold) = 0) \<and>
   (k \<le> 0 \<longrightarrow>
      ransac_loop eigen RAND_MAX pts' threshold' k 0 st = Some (Inr st))"
proof (rule conjI; rule impI)
  assume "threshold \<le> 0"
  then have no: "\<not> plane_distance plane p < threshold" for p
    by (simp add: plane_distance_def not_less)
  show "length (distances (PlanePointRANSACDifferences pts plane threshold)) = length pts \<and>
      isInliers (PlanePointRANSACDifferences pts plane threshold) = replicate (length pts) False \<and>
      inliersNum (PlanePointRANSACDifferences pts plane threshold) = 0"
    by (simp add: PPRD_eq no map_replicate_const)
next
  assume "k \<le> 0"
  then show "ransac_loop eigen RAND_MAX pts' threshold' k 0 st = Some (Inr st)"
    by (simp add: ransac_loop_run_trials)
qed

text \<open>Witness of the amended C6: the threshold 0 on \<open>line_z\<close>, no iteration on a triangle.\<close>

theorem no_parameter_check_witness:
  "(0::real) \<le> 0 \<and> (0::int) \<le> 0 \<and>
   length (distances (PlanePointRANSACDifferences line_z plane_z0 0)) = length line_z \<and>
   isInliers (PlanePointRANSACDifferences line_z plane_z0 0) = replicate (length line_z) False \<and>
   inliersNum (PlanePointRANSACDifferences line_z plane_z0 0) = 0 \<and>
   ransac_loop eigen_sorted_diagonal 32767 (triangle_z 0) 1 0 0 ((0, plane_z0), draws6)
     = Some (Inr ((0, plane_z0), draws6))"
proof -
  have h: "(0::real) \<le> 0" "(0::int) \<le> 0" by simp_all
  from no_parameter_check[of 0 line_z plane_z0 0 eigen_sorted_diagonal 32767 "triangle_z 0" 1
      "((0, plane_z0), draws6)"] h
  show ?thesis by blast
qed

text \<open>
  C7: the source at the failing input. When \<^verbatim>\<open>rand()\<close> returns \<^verbatim>\<open>RAND_MAX\<close>, the quotient
  \<^verbatim>\<open>(float)(rand())/RAND_MAX\<close> is 1 and the index is \<open>num\<close>: on a cloud of three points
  the three indices are 3, 0 and 1, \<^verbatim>\<open>pts.at(3)\<close> throws \<^verbatim>\<open>std::out_of_range\<close>, and the
  estimator ends with this exception.
\<close>

theorem index_out_of_range:
  "draw_indices 32767 (length (triangle_z 0)) draws_max = Some ((3, 0, 1), rng_drop 3 draws_max) \<and>
   vec_at (triangle_z 0) 3 = Inl OutOfRange \<and>
   EstimatePlaneRANSAC eigen_sorted_diagonal 32767 plane_z0 (triangle_z 0) 1 1 draws_max =
     Some (Inl OutOfRange)"
proof -
  have l: "length (triangle_z 0) = 3" by (simp add: triangle_z_def)
  have v: "vec_at (triangle_z 0) 3 = Inl OutOfRange" by (simp add: vec_at_def l)
  have "ransac_trial eigen_sorted_diagonal 32767 (triangle_z 0) 1 ((0, plane_z0), draws_max)
          = Some (Inl OutOfRange)"
    by (simp add: ransac_trial_def l draw_indices_draws_max score_sample_def v)
  then have "EstimatePlaneRANSAC eigen_sorted_diagonal 32767 plane_z0 (triangle_z 0) 1 1 draws_max =
     Some (Inl OutOfRange)"
    by (simp add: EstimatePlaneRANSAC_eq)
  with v show ?thesis by (simp add: l draw_indices_draws_max)
qed

text \<open>
  C8, as stated, fails: the estimator has no generator among its arguments. Two calls, one
  after the other, with the same points, threshold and iteration count: the second goes
  on with the draws that the first has left, samples the other triangle and returns
  another plane.
\<close>

theorem implicit_generator_counterexample:
  "EstimatePlaneRANSAC eigen_sorted_diagonal 32767 plane_z0 two_triangles 1 1 draws6 =
     Some (Inr (PlaneParams 0 0 1 0, rng_drop 3 draws6)) \<and>
   EstimatePlaneRANSAC eigen_sorted_diagonal 32767 plane_z0 two_triangles 1 1 (rng_drop 3 draws6) =
     Some (Inr (PlaneParams 0 0 1 (- 5), rng_drop 6 draws6)) \<and>
   (PlaneParams 0 0 1 0 :: PlaneParams) \<noteq> PlaneParams 0 0 1 (- 5)"
  by (simp add: EstimatePlaneRANSAC_low EstimatePlaneRANSAC_high)

text \<open>
  C8, amended. The randomness of the estimator is the process-wide state of \<^verbatim>\<open>rand()\<close>,
  which a call reads and advances: a call that returns after \<open>k\<close> trials has drawn at
  least \<open>3 k\<close> values and leaves the generator that many draws further. The state at the
  call decides the run: whatever \<^verbatim>\<open>bestPlane\<close> holds before the loop, the loop ends with the
  same best score and the same generator, and when that score is above 0, with the same
  best plane, and the estimator returns the same plane.
\<close>

theorem generator_state_decides:
  assumes "EstimatePlaneRANSAC eigen RAND_MAX bestPlane0 pts threshold k g = Some (Inr (plane, g'))"
  shows "(\<exists>d. 3 * nat k \<le> d \<and> g' = rng_drop d g) \<and>
         (\<exists>bestNum bestPlane.
            ransac_loop eigen RAND_MAX pts threshold k 0 ((0, bestPlane0), g)
              = Some (Inr ((bestNum, bestPlane), g')) \<and>
            (\<forall>otherPlane0. \<exists>otherPlane.
               ransac_loop eigen RAND_MAX pts threshold k 0 ((0, otherPlane0), g)
                 = Some (Inr ((bestNum, otherPlane), g')) \<and>
               (0 < bestNum \<longrightarrow>
                  otherPlane = bestPlane \<and>
                  EstimatePlaneRANSAC eigen RAND_MAX otherPlane0 pts threshold k g
                    = Some (Inr (plane, g')))))"
proof -
  from assms obtain bestNum bestPlane where
    r: "run_trials eigen RAND_MAX pts threshold (nat k) ((0, bestPlane0), g)
          = Some (Inr ((bestNum, bestPlane), g'))"
    and p: "plane = EstimatePlaneOptimal eigen
                      (filter (\<lambda>p. plane_distance bestPlane p < threshold) pts)"
    by (auto simp: EstimatePlaneRANSAC_eq split: option.splits sum.splits)
  from run_trials_post[OF r] have adv: "\<exists>d. 3 * nat k \<le> d \<and> g' = rng_drop d g" by blast
  have other: "\<exists>otherPlane.
         ransac_loop eigen RAND_MAX pts threshold k 0 ((0, otherPlane0), g)
           = Some (Inr ((bestNum, otherPlane), g')) \<and>
         (0 < bestNum \<longrightarrow>
            otherPlane = bestPlane \<and>
            EstimatePlaneRANSAC eigen RAND_MAX otherPlane0 pts threshold k g
              = Some (Inr (plane, g')))" for otherPlane0
  proof -
    from run_trials_start_plane[OF r, of otherPlane0] obtain otherPlane where
      o: "run_trials eigen RAND_MAX pts threshold (nat k) ((0, otherPlane0), g)
            = Some (Inr ((bestNum, otherPlane), g'))"
      and e: "otherPlane = bestPlane \<or> bestNum = 0"
      by auto
    have "EstimatePlaneRANSAC eigen RAND_MAX otherPlane0 pts threshold k g = Some (Inr (plane, g'))"
      if "0 < bestNum"
      using that e o p by (simp add: EstimatePlaneRANSAC_eq)
    with o e show ?thesis
      by (intro exI[of _ otherPlane]) (auto simp: ransac_loop_run_trials)
  qed
  from r have "ransac_loop eigen RAND_MAX pts threshold k 0 ((0, bestPlane0), g)
              = Some (Inr ((bestNum, bestPlane), g'))"
    by (simp add: ransac_loop_run_trials)
  with adv other show ?thesis by blast
qed

text \<open>
  Witness of the amended C8: two trials on the two triangles take six draws, and the plane
  returned is the same when \<^verbatim>\<open>bestPlane\<close> holds \<open>(0, 0, 0, 0)\<close> before the loop.
\<close>

theorem generator_state_decides_witness:
  "EstimatePlaneRANSAC eigen_sorted_diagonal 32767 plane_z0 two_triangles 1 2 draws6 =
     Some (Inr (PlaneParams 0 0 1 0, rng_drop 6 draws6)) \<and>
   (\<exists>d. 3 * nat 2 \<le> d \<and> rng_drop 6 draws6 = rng_drop d draws6) \<and>
   (\<exists>bestNum bestPlane.
      ransac_loop eigen_sorted_diagonal 32767 two_triangles 1 2 0 ((0, plane_z0), draws6)
        = Some (Inr ((bestNum, bestPlane), rng_drop 6 draws6)) \<and>
      (\<forall>otherPlane0. \<exists>otherPlane.
         ransac_loop eigen_sorted_diagonal 32767 two_triangles 1 2 0 ((0, otherPlane0), draws6)
           = Some (Inr ((bestNum, otherPlane), rng_drop 6 draws6)) \<and>
         (0 < bestNum \<longrightarrow>
            otherPlane = bestPlane \<and>
            EstimatePlaneRANSAC eigen_sorted_diagonal 32767 otherPlane0 two_triangles 1 2 draws6
              = Some (Inr (PlaneParams 0 0 1 0, rng_drop 6 draws6))))) \<and>
   EstimatePlaneRANSAC eigen_sorted_diagonal 32767 (PlaneParams 0 0 0 0) two_triangles 1 2 draws6 =
     Some (Inr (PlaneParams 0 0 1 0, rng_drop 6 draws6))"
  using generator_state_decides[OF EstimatePlaneRANSAC_two] EstimatePlaneRANSAC_two
    EstimatePlaneRANSAC_other_start
  by blast

text \<open>
  C9. The classifier is monotone in the threshold: with \<open>t1 \<le> t2\<close>, a point flagged at
  \<open>t1\<close> is flagged at \<open>t2\<close> and the inlier count at \<open>t1\<close> is at most the one at \<open>t2\<close>;
  a threshold \<open>t \<le> 0\<close> gives no inlier at all, and a result, not an error.
\<close>

theorem classifier_monotone:
  "(t1 \<le> t2 \<longrightarrow>
      (\<forall>i<length pts. isInliers (PlanePointRANSACDifferences pts plane t1) ! i \<longrightarrow>
                       isInliers (PlanePointRANSACDifferences pts plane t2) ! i) \<and>
      inliersNum (PlanePointRANSACDifferences pts plane t1)
        \<le> inliersNum (PlanePointRANSACDifferences pts plane t2)) \<and>
   (t \<le> 0 \<longrightarrow>
      isInliers (PlanePointRANSACDifferences pts plane t) = replicate (length pts) False \<and>
      inliersNum (PlanePointRANSACDifferences pts plane t) = 0)"
proof (intro conjI impI)
  assume le: "t1 \<le> t2"
  show "\<forall>i<length pts. isInliers (PlanePointRANSACDifferences pts plane t1) ! i \<longrightarrow>
                       isInliers (PlanePointRANSACDifferences pts plane t2) ! i"
    using le by (simp add: PPRD_eq)
  have "length (filter (\<lambda>p. plane_distance plane p < t1) pts)
          \<le> length (filter (\<lambda>p. plane_distance plane p < t2) pts)"
    using le by (intro filter_mono_length) simp
  then show "inliersNum (PlanePointRANSACDifferences pts plane t1)
        \<le> inliersNum (PlanePointRANSACDifferences pts plane t2)"
    by (simp add: PPRD_eq)
next
  assume "t \<le> 0"
  then have no: "\<not> plane_distance plane p < t" for p
    by (simp add: plane_distance_def not_less)
  show "isInliers (PlanePointRANSACDifferences pts plane t) = replicate (length pts) False"
    by (simp add: PPRD_eq no map_replicate_const)
  show "inliersNum (PlanePointRANSACDifferences pts plane t) = 0"
    by (simp add: PPRD_eq no)
qed

text \<open>Witness of C9, on \<open>line_z\<close> with the thresholds 1, 2 and 0.\<close>

theorem classifier_monotone_witness:
  "(1::real) \<le> 2 \<and> (0::nat) < length line_z \<and>
   isInliers (PlanePointRANSACDifferences line_z plane_z0 1) ! 0 \<and>
   isInliers (PlanePointRANSACDifferences line_z plane_z0 2) ! 0 \<and>
   inliersNum (PlanePointRANSACDifferences line_z plane_z0 1)
     \<le> inliersNum (PlanePointRANSACDifferences line_z plane_z0 2) \<and>
   (0::real) \<le> 0 \<and>
   isInliers (PlanePointRANSACDifferences line_z plane_z0 0) = replicate (length line_z) False \<and>
   inliersNum (PlanePointRANSACDifferences line_z plane_z0 0) = 0"
proof -
  have h: "(1::real) \<le> 2" "(0::real) \<le> 0" "(0::nat) < length line_z"
    by (simp_all add: line_z_def)
  have f: "isInliers (PlanePointRANSACDifferences line_z plane_z0 1) ! 0"
    by (simp add: PPRD_eq line_z_def plane_z0_def plane_distance_def)
  from classifier_monotone[of 1 2 line_z plane_z0 0] h f show ?thesis
    by blast
qed

text \<open>
  C10. For a cloud of one or two points and \<open>k \<ge> 1\<close>, with a generator whose draws all
  give an index in \<open>[0, n)\<close>, the estimator never returns: with one point the loop for
  \<^verbatim>\<open>index2\<close> never ends, with two points the loop for \<^verbatim>\<open>index3\<close> never ends.
\<close>

theorem small_cloud_diverges:
  assumes "length pts = 1 \<or> length pts = 2" and "1 \<le> k"
      and "\<forall>j. 0 \<le> rand_index RAND_MAX (length pts) (g j) \<and>
               rand_index RAND_MAX (length pts) (g j) < int (length pts)"
  shows "EstimatePlaneRANSAC eigen RAND_MAX bestPlane0 pts threshold k g = None"
  using assms by (rule EstimatePlaneRANSAC_diverges)

text \<open>Witness of C10: the two points of \<open>pair_x\<close>, the draws giving the indices 0, 1, 0, 1, ...\<close>

theorem small_cloud_diverges_witness:
  "(length pair_x = 1 \<or> length pair_x = 2) \<and> (1::int) \<le> 1 \<and>
   (\<forall>j. 0 \<le> rand_index 32767 (length pair_x) (draws2 j) \<and>
        rand_index 32767 (length pair_x) (draws2 j) < int (length pair_x)) \<and>
   EstimatePlaneRANSAC eigen_sorted_diagonal 32767 plane_z0 pair_x 1 1 draws2 = None"
proof -
  have h: "length pair_x = 1 \<or> length pair_x = 2" "(1::int) \<le> 1"
    by (simp_all add: pair_x_def)
  from small_cloud_diverges[OF h draws2_range, of eigen_sorted_diagonal plane_z0 1] h draws2_range
  show ?thesis by blast
qed

end
